theory Spec2Isabelle
  imports Complex_Main "HOL-Library.Multiset"
begin

section \<open>Healthcare Monte Carlo analysis: generator, simulator and analyzer\<close>

text \<open>
  The three modules of the repository (\<^verbatim>\<open>data_generator.py\<close>,
  \<^verbatim>\<open>monte_carlo_simulator.py\<close>, \<^verbatim>\<open>analysis.py\<close>) are embedded as HOL
  functions. Python floats are idealised as \<^typ>\<open>real\<close> (exact arithmetic), Python
  integers are \<^typ>\<open>int\<close>, exceptions are values of \<open>py_error\<close> on the left of a sum.
  Every call into the random number generator is replaced by a value read from an
  explicit stream of draws that the function receives as an argument, so each function
  is a deterministic function of its inputs and of the draws.
\<close>

subsection \<open>Exceptions\<close>

text \<open>The source defines no exception class of its own; these are the built-in
  exceptions that its library calls raise.\<close>

datatype py_error = KeyError | ValueError | IndexError | TypeError

subsection \<open>Array statistics (numpy / pandas reductions)\<close>

text \<open>\<^verbatim>\<open>a.mean()\<close>: sum over count.\<close>

definition np_mean :: "real list \<Rightarrow> real" where
  "np_mean xs = sum_list xs / real (length xs)"

text \<open>\<^verbatim>\<open>a.std()\<close> of numpy: population standard deviation (\<^verbatim>\<open>ddof=0\<close>).\<close>

definition np_std :: "real list \<Rightarrow> real" where
  "np_std xs = sqrt (np_mean (map (\<lambda>x. (x - np_mean xs)\<^sup>2) xs))"

text \<open>
  Linear-interpolation quantile, the default method of \<^verbatim>\<open>np.percentile\<close> and of
  \<^verbatim>\<open>Series.quantile\<close>: on the sorted data the virtual index is \<open>(n - 1) * q\<close>, its
  floor and the next index (capped at the last element) are interpolated with the
  fractional part as weight.
\<close>

definition linear_quantile :: "real list \<Rightarrow> real \<Rightarrow> real" where
  "linear_quantile xs q =
     (let s = sort xs;
          n = length xs;
          h = real (n - 1) * q;
          lo = nat \<lfloor>h\<rfloor>;
          hi = min (lo + 1) (n - 1);
          g = h - real lo
      in s ! lo + g * (s ! hi - s ! lo))"

definition np_percentile :: "real list \<Rightarrow> real \<Rightarrow> real" where
  "np_percentile xs p = linear_quantile xs (p / 100)"

text \<open>\<^verbatim>\<open>np.median\<close>: middle element of the sorted data, or the mean of the two
  middle elements.\<close>

definition np_median :: "real list \<Rightarrow> real" where
  "np_median xs =
     (let s = sort xs; n = length xs
      in if odd n then s ! (n div 2) else (s ! (n div 2 - 1) + s ! (n div 2)) / 2)"

text \<open>\<^verbatim>\<open>a.sum()\<close> of a boolean array: the number of true entries.\<close>

definition np_sum_bool :: "bool list \<Rightarrow> nat" where
  "np_sum_bool bs = length (filter (\<lambda>b. b) bs)"

text \<open>\<^verbatim>\<open>np.clip(x, lo, hi)\<close>.\<close>

definition np_clip :: "real \<Rightarrow> real \<Rightarrow> real \<Rightarrow> real" where
  "np_clip x lo hi = min hi (max lo x)"

subsection \<open>Patients\<close>

record patient =
  patient_id :: string
  age :: int
  gender :: string
  bmi :: real
  baseline_systolic :: real
  baseline_diastolic :: real
  baseline_glucose :: real
  baseline_hba1c :: real
  disease :: string
  treatment :: string
  baseline_severity :: real

subsection \<open>Simulator: \<^verbatim>\<open>MonteCarloHealthcareSimulator\<close>\<close>

record TreatmentParameters =
  efficacy_mean :: real
  efficacy_std :: real
  recovery_days_optimistic :: int
  recovery_days_likely :: int
  recovery_days_pessimistic :: int
  complication_rate :: real
  side_effect_severity :: real

definition treatment_params :: "string \<rightharpoonup> TreatmentParameters" where
  "treatment_params =
     [''Standard Care'' \<mapsto>
        \<lparr>efficacy_mean = 0.65, efficacy_std = 0.15, recovery_days_optimistic = 30,
         recovery_days_likely = 60, recovery_days_pessimistic = 120,
         complication_rate = 0.10, side_effect_severity = 2.5\<rparr>,
      ''Intensive Therapy'' \<mapsto>
        \<lparr>efficacy_mean = 0.78, efficacy_std = 0.18, recovery_days_optimistic = 20,
         recovery_days_likely = 45, recovery_days_pessimistic = 90,
         complication_rate = 0.18, side_effect_severity = 4.5\<rparr>,
      ''Experimental Treatment'' \<mapsto>
        \<lparr>efficacy_mean = 0.72, efficacy_std = 0.22, recovery_days_optimistic = 15,
         recovery_days_likely = 40, recovery_days_pessimistic = 100,
         complication_rate = 0.25, side_effect_severity = 5.5\<rparr>]"

text \<open>
  The three random draws of one trial of the simulation loop, in the order the loop
  makes them: \<^verbatim>\<open>np.random.beta(alpha, beta)\<close>, \<^verbatim>\<open>np.random.triangular(...)\<close> and
  \<^verbatim>\<open>np.random.random()\<close>.
\<close>

record trial_draw =
  beta_sample :: real
  triangular_sample :: real
  random_sample :: real

text \<open>The statistic bundles of a result. The recovery-time bundle has two more
  percentiles than the severity bundles.\<close>

record stats =
  mean :: real
  median :: real
  std :: real
  percentile_5 :: real
  percentile_25 :: real
  percentile_75 :: real
  percentile_95 :: real

record recovery_stats = stats +
  percentile_50 :: real
  percentile_90 :: real

definition severity_bundle :: "real list \<Rightarrow> stats" where
  "severity_bundle a =
     \<lparr>mean = np_mean a, median = np_median a, std = np_std a,
      percentile_5 = np_percentile a 5, percentile_25 = np_percentile a 25,
      percentile_75 = np_percentile a 75, percentile_95 = np_percentile a 95\<rparr>"

definition recovery_bundle :: "real list \<Rightarrow> recovery_stats" where
  "recovery_bundle a =
     \<lparr>mean = np_mean a, median = np_median a, std = np_std a,
      percentile_5 = np_percentile a 5, percentile_25 = np_percentile a 25,
      percentile_75 = np_percentile a 75, percentile_95 = np_percentile a 95,
      percentile_50 = np_percentile a 50, percentile_90 = np_percentile a 90\<rparr>"

text \<open>The dictionary returned by \<^verbatim>\<open>simulate_treatment_outcome\<close>. Three of its keys
  carry the names of patient columns; they get the prefix \<open>r_\<close> here.\<close>

record outcome =
  r_patient_id :: string
  r_treatment :: string
  r_baseline_severity :: real
  simulations :: int
  final_severity :: stats
  severity_reduction :: stats
  recovery_time :: recovery_stats
  probability_of_success :: real
  probability_of_complications :: real
  expected_efficacy :: real
  r_side_effect_severity :: real

text \<open>The adjusted mean efficacy and the severity penalty of a patient under a
  treatment profile.\<close>

definition severity_penalty :: "patient \<Rightarrow> real" where
  "severity_penalty p = (baseline_severity p / 100) * 0.1"

definition adjusted_efficacy_mean :: "TreatmentParameters \<Rightarrow> patient \<Rightarrow> real" where
  "adjusted_efficacy_mean params p =
     (let age_penalty = (real_of_int (age p) - 50) * 0.002;
          bmi_penalty = max 0 ((bmi p - 30) * 0.005)
      in np_clip (efficacy_mean params - age_penalty - bmi_penalty - severity_penalty p)
           0.2 0.95)"

text \<open>The per-trial arrays filled by the loop, as functions of the list of draws.\<close>

definition final_severity_reduction :: "patient \<Rightarrow> trial_draw list \<Rightarrow> real list" where
  "final_severity_reduction p ds = map (\<lambda>d. baseline_severity p * beta_sample d) ds"

definition recovery_times :: "trial_draw list \<Rightarrow> real list" where
  "recovery_times ds = map triangular_sample ds"

definition complications :: "TreatmentParameters \<Rightarrow> patient \<Rightarrow> trial_draw list \<Rightarrow> bool list" where
  "complications params p ds =
     map (\<lambda>d. random_sample d < complication_rate params * (1 + severity_penalty p)) ds"

definition success :: "TreatmentParameters \<Rightarrow> patient \<Rightarrow> trial_draw list \<Rightarrow> bool list" where
  "success params p ds =
     map (\<lambda>d. baseline_severity p * beta_sample d \<ge> baseline_severity p * 0.4
             \<and> \<not> random_sample d < complication_rate params * (1 + severity_penalty p)) ds"

definition final_severity_scores :: "patient \<Rightarrow> trial_draw list \<Rightarrow> real list" where
  "final_severity_scores p ds = map (\<lambda>r. baseline_severity p - r) (final_severity_reduction p ds)"

text \<open>
  \<^verbatim>\<open>simulate_treatment_outcome(patient, num_simulations)\<close>. The stream \<open>rng\<close> gives the
  draws of trial \<open>0, 1, ...\<close>. The failures are those of the library calls, in the order
  of the source: the profile lookup raises \<^verbatim>\<open>KeyError\<close> for a treatment that is not a
  key; \<^verbatim>\<open>np.zeros(num_simulations)\<close> raises \<^verbatim>\<open>ValueError\<close> for a negative size; with
  zero trials every array is empty, the mean, median and standard deviation are
  \<^verbatim>\<open>nan\<close>, and the first \<^verbatim>\<open>np.percentile\<close> of an empty array raises \<^verbatim>\<open>IndexError\<close>
  (numpy 1.22 and later; earlier releases return \<^verbatim>\<open>nan\<close> there too and the function
  returns a dictionary of \<^verbatim>\<open>nan\<close>). The source has no check of its own on
  \<^verbatim>\<open>num_simulations\<close>.
\<close>

definition simulate_treatment_outcome ::
  "(nat \<Rightarrow> trial_draw) \<Rightarrow> patient \<Rightarrow> int \<Rightarrow> py_error + outcome" where
  "simulate_treatment_outcome rng p num_simulations =
     (case treatment_params (treatment p) of
        None \<Rightarrow> Inl KeyError
      | Some params \<Rightarrow>
          if num_simulations < 0 then Inl ValueError
          else if num_simulations = 0 then Inl IndexError
          else
            let ds = map rng [0..<nat num_simulations]
            in Inr \<lparr>r_patient_id = patient_id p,
                    r_treatment = treatment p,
                    r_baseline_severity = baseline_severity p,
                    simulations = num_simulations,
                    final_severity = severity_bundle (final_severity_scores p ds),
                    severity_reduction = severity_bundle (final_severity_reduction p ds),
                    recovery_time = recovery_bundle (recovery_times ds),
                    probability_of_success =
                      real (np_sum_bool (success params p ds)) / real_of_int num_simulations,
                    probability_of_complications =
                      real (np_sum_bool (complications params p ds)) / real_of_int num_simulations,
                    expected_efficacy = adjusted_efficacy_mean params p,
                    r_side_effect_severity = side_effect_severity params\<rparr>)"

subsection \<open>Generator: \<^verbatim>\<open>HealthcareDataGenerator\<close>\<close>

definition diseases :: "string list" where
  "diseases = [''Type 2 Diabetes'', ''Hypertension'', ''Both'']"

definition treatments :: "string list" where
  "treatments = [''Standard Care'', ''Intensive Therapy'', ''Experimental Treatment'']"

text \<open>\<^verbatim>\<open>astype(int)\<close> and \<^verbatim>\<open>int(x)\<close> on a float: truncation towards zero.\<close>

definition astype_int :: "real \<Rightarrow> int" where
  "astype_int x = (if 0 \<le> x then \<lfloor>x\<rfloor> else \<lceil>x\<rceil>)"

text \<open>\<^verbatim>\<open>np.round(x, decimals)\<close>: scale by a power of ten, round to the nearest integer
  with ties to the even one, scale back.\<close>

definition rint :: "real \<Rightarrow> int" where
  "rint x =
     (let f = \<lfloor>x\<rfloor>; d = x - of_int f
      in if d < 1 / 2 then f else if 1 / 2 < d then f + 1 else if even f then f else f + 1)"

definition np_round :: "real \<Rightarrow> nat \<Rightarrow> real" where
  "np_round x decimals = of_int (rint (x * 10 ^ decimals)) / 10 ^ decimals"

text \<open>
  A product of two doubles is the exact product rounded to the nearest double, ties to
  the even significand. For a real \<open>x \<noteq> 0\<close> in the binade \<open>2 ^ k \<le> \<bar>x\<bar> < 2 ^ (k + 1)\<close>
  the doubles are the multiples of \<open>2 ^ (k - 52)\<close>. Overflow and the subnormal range
  are not modelled. A double argument of a function is the real number it stands for,
  so that \<^verbatim>\<open>len(df) * amplification_factor\<close> is \<open>round_to_double\<close> of the exact
  product.
\<close>

definition round_to_double :: "real \<Rightarrow> real" where
  "round_to_double x =
     (if x = 0 then 0
      else let e = \<lfloor>log 2 \<bar>x\<bar>\<rfloor> - 52
           in of_int (rint (x / 2 powr of_int e)) * 2 powr of_int e)"

text \<open>\<^verbatim>\<open>str(i)\<close> of an integer, \<^verbatim>\<open>s.zfill(width)\<close>.\<close>

fun str_nat :: "nat \<Rightarrow> string" where
  "str_nat n =
     (if n < 10 then [char_of (48 + n)]
      else str_nat (n div 10) @ [char_of (48 + n mod 10)])"

declare str_nat.simps [simp del]

definition str_int :: "int \<Rightarrow> string" where
  "str_int i = (if i < 0 then CHR ''-'' # str_nat (nat (- i)) else str_nat (nat i))"

definition zfill :: "string \<Rightarrow> nat \<Rightarrow> string" where
  "zfill s width = replicate (width - length s) CHR ''0'' @ s"

text \<open>
  \<^verbatim>\<open>np.random.choice(a, p=p)\<close> for one draw: the uniform sample \<open>u\<close> selects the first
  entry whose cumulative probability exceeds it. The source always passes a non-empty
  list; the last entry is taken when \<open>u\<close> is not below the total.
\<close>

fun choice_p :: "string list \<Rightarrow> real list \<Rightarrow> real \<Rightarrow> string" where
  "choice_p [] ps u = []"
| "choice_p [x] ps u = x"
| "choice_p (x # xs) [] u = x"
| "choice_p (x # xs) (p # ps) u = (if u < p then x else choice_p xs ps (u - p))"

text \<open>The random draws behind one row of the base population, one field per call
  of the generator that the row depends on.\<close>

record base_draw =
  gamma_sample :: real
  gender_sample :: real
  bmi_sample :: real
  systolic_noise :: real
  diastolic_noise :: real
  glucose_noise :: real
  hba1c_noise :: real
  disease_sample :: real
  treatment_sample :: nat

text \<open>
  The source computes the columns of the base population as whole arrays, each entry
  from the entries of the same row. The functions below give the entry of one row of
  each intermediate array, before rounding, as a function of the draws of that row;
  they carry the name of the array with the suffix \<open>_col\<close>.
\<close>

definition ages_col :: "base_draw \<Rightarrow> int" where
  "ages_col d = astype_int (np_clip (gamma_sample d + 30) 30 85)"

definition bmi_col :: "base_draw \<Rightarrow> real" where
  "bmi_col d =
     (let base_bmi = bmi_sample d;
          age_factor = (real_of_int (ages_col d) - 50) * 0.05
      in np_clip (base_bmi + age_factor) 18 50)"

definition systolic_col :: "base_draw \<Rightarrow> real" where
  "systolic_col d =
     np_clip (110 + (bmi_col d - 25) * 1.2 + (real_of_int (ages_col d) - 50) * 0.3
                + systolic_noise d) 90 180"

definition diastolic_col :: "base_draw \<Rightarrow> real" where
  "diastolic_col d =
     np_clip (70 + (bmi_col d - 25) * 0.6 + (real_of_int (ages_col d) - 50) * 0.15
                + diastolic_noise d) 60 120"

definition glucose_col :: "base_draw \<Rightarrow> real" where
  "glucose_col d = np_clip (95 + (bmi_col d - 25) * 1.5 + glucose_noise d) 70 180"

definition hba1c_col :: "base_draw \<Rightarrow> real" where
  "hba1c_col d = np_clip (5.5 + (glucose_col d - 100) * 0.015 + hba1c_noise d) 4.5 10"

definition diseases_col :: "base_draw \<Rightarrow> string" where
  "diseases_col d =
     (let disease_risk = (if bmi_col d > 30 then 1 else 0)
                          + (if systolic_col d > 140 then 1 else 0)
                          + (if glucose_col d > 126 then (1::real) else 0);
          prob = np_clip (disease_risk / 6) 0.1 0.8
      in if prob > 0.6 then choice_p diseases [0.3, 0.3, 0.4] (disease_sample d)
         else if prob > 0.3 then choice_p diseases [0.4, 0.4, 0.2] (disease_sample d)
         else choice_p diseases [0.5, 0.45, 0.05] (disease_sample d))"

definition severity_col :: "base_draw \<Rightarrow> real" where
  "severity_col d =
     np_clip ((bmi_col d - 18) / 32 * 25 + (systolic_col d - 90) / 90 * 25
                + (glucose_col d - 70) / 110 * 25 + (hba1c_col d - 4.5) / 5.5 * 25) 0 100"

text \<open>Row \<open>i\<close> (counted from 0) of the data frame that \<^verbatim>\<open>generate_base_population\<close>
  builds from the arrays.\<close>

definition base_patient :: "nat \<Rightarrow> base_draw \<Rightarrow> patient" where
  "base_patient i d =
     \<lparr>patient_id = ''PT'' @ zfill (str_nat (i + 1)) 6,
      age = ages_col d,
      gender = choice_p [''Male'', ''Female''] [0.48, 0.52] (gender_sample d),
      bmi = np_round (bmi_col d) 1,
      baseline_systolic = np_round (systolic_col d) 0,
      baseline_diastolic = np_round (diastolic_col d) 0,
      baseline_glucose = np_round (glucose_col d) 0,
      baseline_hba1c = np_round (hba1c_col d) 2,
      disease = diseases_col d,
      treatment = treatments ! (treatment_sample d mod length treatments),
      baseline_severity = np_round (severity_col d) 1\<rparr>"

text \<open>\<^verbatim>\<open>generate_base_population(n_patients)\<close>. A negative size makes the first array
  draw raise \<^verbatim>\<open>ValueError\<close>.\<close>

definition generate_base_population :: "(nat \<Rightarrow> base_draw) \<Rightarrow> int \<Rightarrow> py_error + patient list" where
  "generate_base_population rng n_patients =
     (if n_patients < 0 then Inl ValueError
      else Inr (map (\<lambda>i. base_patient i (rng i)) [0..<nat n_patients]))"

text \<open>
  The draws behind one synthetic patient: the row picked by \<^verbatim>\<open>sample(1)\<close> (a position
  in the pool, reduced modulo the pool size), \<^verbatim>\<open>randint(100000, 999999)\<close>,
  \<^verbatim>\<open>randint(-5, 5)\<close> and the five normal perturbations.
\<close>

record amp_draw =
  sample_index :: nat
  id_number :: int
  age_jitter :: int
  bmi_jitter :: real
  systolic_jitter :: real
  diastolic_jitter :: real
  glucose_jitter :: real
  hba1c_jitter :: real

text \<open>
  The body of both amplification loops. \<open>perturbed_copy\<close> is what the loop does to the
  sampled row: give the copy a new identifier and add the draws to age and to the five
  measurements. No other field is assigned, and nothing is clipped.
  \<open>synthetic_patient\<close> samples the row from a non-empty pool first.
\<close>

definition perturbed_copy :: "patient \<Rightarrow> amp_draw \<Rightarrow> patient" where
  "perturbed_copy base d =
     base
       \<lparr>patient_id := ''SYN'' @ str_int (id_number d),
        age := age base + age_jitter d,
        bmi := bmi base + bmi_jitter d,
        baseline_systolic := baseline_systolic base + systolic_jitter d,
        baseline_diastolic := baseline_diastolic base + diastolic_jitter d,
        baseline_glucose := baseline_glucose base + glucose_jitter d,
        baseline_hba1c := baseline_hba1c base + hba1c_jitter d\<rparr>"

definition synthetic_patient :: "patient list \<Rightarrow> amp_draw \<Rightarrow> patient" where
  "synthetic_patient pool d = perturbed_copy (pool ! (sample_index d mod length pool)) d"

definition high_risk_samples :: "patient list \<Rightarrow> patient list" where
  "high_risk_samples df =
     filter (\<lambda>p. baseline_severity p > linear_quantile (map baseline_severity df) 0.9) df"

definition low_risk_samples :: "patient list \<Rightarrow> patient list" where
  "low_risk_samples df =
     filter (\<lambda>p. baseline_severity p < linear_quantile (map baseline_severity df) 0.1) df"

definition n_synthetic :: "patient list \<Rightarrow> real \<Rightarrow> int" where
  "n_synthetic df amplification_factor =
     astype_int (round_to_double (real (length df) * amplification_factor))"

definition n_high_risk :: "patient list \<Rightarrow> real \<Rightarrow> int" where
  "n_high_risk df amplification_factor = n_synthetic df amplification_factor div 2"

definition n_low_risk :: "patient list \<Rightarrow> real \<Rightarrow> int" where
  "n_low_risk df amplification_factor =
     n_synthetic df amplification_factor - n_high_risk df amplification_factor"

definition synthetic_high_risk :: "(nat \<Rightarrow> amp_draw) \<Rightarrow> patient list \<Rightarrow> real \<Rightarrow> patient list" where
  "synthetic_high_risk rng df amplification_factor =
     map (\<lambda>i. synthetic_patient (high_risk_samples df) (rng i))
       [0..<nat (n_high_risk df amplification_factor)]"

definition synthetic_low_risk :: "(nat \<Rightarrow> amp_draw) \<Rightarrow> patient list \<Rightarrow> real \<Rightarrow> patient list" where
  "synthetic_low_risk rng df amplification_factor =
     map (\<lambda>i. synthetic_patient (low_risk_samples df)
                 (rng (nat (n_high_risk df amplification_factor) + i)))
       [0..<nat (n_low_risk df amplification_factor)]"

text \<open>
  \<^verbatim>\<open>amplify_edge_cases(df, amplification_factor)\<close>. \<^verbatim>\<open>sample(1)\<close> on a pool without
  rows raises \<^verbatim>\<open>ValueError\<close>; this happens in the first iteration of a loop whose pool
  is empty, the high-risk loop first. A loop over \<^verbatim>\<open>range(k)\<close> with \<open>k \<le> 0\<close> does not
  run. The result is the concatenation of the input rows and the synthetic rows.
\<close>

definition amplify_edge_cases ::
  "(nat \<Rightarrow> amp_draw) \<Rightarrow> patient list \<Rightarrow> real \<Rightarrow> py_error + patient list" where
  "amplify_edge_cases rng df amplification_factor =
     (if 0 < n_high_risk df amplification_factor \<and> high_risk_samples df = [] then Inl ValueError
      else if 0 < n_low_risk df amplification_factor \<and> low_risk_samples df = [] then Inl ValueError
      else Inr (df @ (synthetic_high_risk rng df amplification_factor
                        @ synthetic_low_risk rng df amplification_factor)))"

definition generate_patient_cohort ::
  "(nat \<Rightarrow> base_draw) \<Rightarrow> (nat \<Rightarrow> amp_draw) \<Rightarrow> int \<Rightarrow> bool \<Rightarrow> real \<Rightarrow> py_error + patient list" where
  "generate_patient_cohort base_rng amp_rng n_patients amplify amplification_factor =
     (case generate_base_population base_rng n_patients of
        Inl e \<Rightarrow> Inl e
      | Inr base_df \<Rightarrow>
          if amplify then amplify_edge_cases amp_rng base_df amplification_factor
          else Inr base_df)"

subsection \<open>Analyzer: \<^verbatim>\<open>HealthcareAnalyzer\<close>\<close>

text \<open>
  The table of simulation results that the analyzer receives: the rows built by the
  simulator and, once \<^verbatim>\<open>risk_stratification_analysis\<close> has run on the table, the
  extra column \<^verbatim>\<open>risk_category\<close>. The column is \<open>None\<close> while the table does not
  have it; an entry of the column is \<open>None\<close> for a row outside every bin (pandas'
  \<^verbatim>\<open>NaN\<close>). Every analyzer method is written in state-passing style: it returns its
  result together with the table as the call leaves it.
\<close>

record results_df =
  rows :: "outcome list"
  risk_category :: "string option list option"

text \<open>\<^verbatim>\<open>Series.unique()\<close>: the distinct values in order of first appearance.\<close>

definition unique :: "'a list \<Rightarrow> 'a list" where
  "unique xs = rev (remdups (rev xs))"

text \<open>The sub-table \<^verbatim>\<open>results_df[results_df['treatment'] == treatment]\<close>.\<close>

definition treatment_data :: "results_df \<Rightarrow> string \<Rightarrow> outcome list" where
  "treatment_data df t = filter (\<lambda>r. r_treatment r = t) (rows df)"

text \<open>
  Reductions of pandas that yield \<^verbatim>\<open>NaN\<close> on too few values are option-valued, \<open>None\<close>
  for \<^verbatim>\<open>NaN\<close>: the mean of an empty column, the sample standard deviation
  (\<^verbatim>\<open>ddof=1\<close>) and the standard error of fewer than two values.
\<close>

definition pd_mean :: "real list \<Rightarrow> real option" where
  "pd_mean xs = (if xs = [] then None else Some (np_mean xs))"

definition pd_std :: "real list \<Rightarrow> real option" where
  "pd_std xs =
     (if length xs < 2 then None
      else Some (sqrt (sum_list (map (\<lambda>x. (x - np_mean xs)\<^sup>2) xs) / real (length xs - 1))))"

definition pd_sem :: "real list \<Rightarrow> real option" where
  "pd_sem xs = map_option (\<lambda>s. s / sqrt (real (length xs))) (pd_std xs)"

record success_rate_stats =
  sr_mean :: real
  sr_std :: "real option"
  sr_median :: real

record summary =
  total_patients :: nat
  distribution :: "string \<rightharpoonup> nat"
  success_rates :: "string \<rightharpoonup> success_rate_stats"
  mean_success_rate :: "real option"
  mean_complication_rate :: "real option"
  high_risk_patients :: nat
  low_risk_patients :: nat

text \<open>\<^verbatim>\<open>generate_summary_statistics(results_df)\<close>. The nested dictionaries are flattened
  into one record; a dictionary keyed by treatment is a map.\<close>

definition generate_summary_statistics :: "results_df \<Rightarrow> summary \<times> results_df" where
  "generate_summary_statistics df =
     (let ts = unique (map r_treatment (rows df))
      in (\<lparr>total_patients = length (rows df),
           distribution = map_of (map (\<lambda>t. (t, length (treatment_data df t))) ts),
           success_rates =
             map_of (map (\<lambda>t. (t,
               \<lparr>sr_mean = np_mean (map probability_of_success (treatment_data df t)),
                sr_std = pd_std (map probability_of_success (treatment_data df t)),
                sr_median = np_median (map probability_of_success (treatment_data df t))\<rparr>)) ts),
           mean_success_rate = pd_mean (map probability_of_success (rows df)),
           mean_complication_rate = pd_mean (map probability_of_complications (rows df)),
           high_risk_patients = length (filter (\<lambda>r. r_baseline_severity r > 70) (rows df)),
           low_risk_patients = length (filter (\<lambda>r. r_baseline_severity r < 30) (rows df))\<rparr>,
          df))"

record treatment_row =
  Treatment :: string

record comparison_row = treatment_row +
  N_Patients :: nat
  Mean_Success_Rate :: real
  Mean_Complication_Rate :: real
  Mean_Recovery_Days :: real
  Mean_Severity_Reduction :: real
  Success_Rate_Std :: "real option"

text \<open>The row that \<^verbatim>\<open>compare_treatments_analysis\<close> appends for one treatment. The
  group of a treatment taken from the table is never empty.\<close>

definition comparison_of :: "results_df \<Rightarrow> string \<Rightarrow> comparison_row" where
  "comparison_of df t =
     \<lparr>Treatment = t,
      N_Patients = length (treatment_data df t),
      Mean_Success_Rate = np_mean (map probability_of_success (treatment_data df t)),
      Mean_Complication_Rate = np_mean (map probability_of_complications (treatment_data df t)),
      Mean_Recovery_Days = np_mean (map (\<lambda>r. mean (recovery_time r)) (treatment_data df t)),
      Mean_Severity_Reduction = np_mean (map (\<lambda>r. mean (severity_reduction r)) (treatment_data df t)),
      Success_Rate_Std = pd_std (map probability_of_success (treatment_data df t))\<rparr>"

text \<open>
  \<^verbatim>\<open>DataFrame.sort_values(by, ascending=False)\<close> with the default
  \<^verbatim>\<open>kind='quicksort'\<close>. pandas reverses the key column, asks the array library for
  the sorting permutation of the reversed column and reverses that permutation. The
  sorting routine is library code outside the repository; it is the parameter
  \<open>argsort\<close>, which maps a list of keys to the list of positions that puts them in
  ascending order. pandas documents \<^verbatim>\<open>quicksort\<close> as not stable, so all that is assumed
  of \<open>argsort\<close> is \<open>is_argsort\<close>: it returns a permutation of the positions under which
  the keys ascend.
\<close>

definition is_argsort :: "(real list \<Rightarrow> nat list) \<Rightarrow> bool" where
  "is_argsort argsort \<longleftrightarrow>
     (\<forall>ks. mset (argsort ks) = mset [0..<length ks] \<and> sorted (map (\<lambda>j. ks ! j) (argsort ks)))"

definition sort_values_desc :: "(real list \<Rightarrow> nat list) \<Rightarrow> ('a \<Rightarrow> real) \<Rightarrow> 'a list \<Rightarrow> 'a list" where
  "sort_values_desc argsort by_col df =
     (let items = rev (map by_col df);
          idx = rev [0..<length df];
          indexer = rev (map (\<lambda>j. idx ! j) (argsort items))
      in map (\<lambda>i. df ! i) indexer)"

text \<open>
  The array library has two routines behind \<^verbatim>\<open>argsort(kind='quicksort')\<close> for 64-bit
  float keys without \<^verbatim>\<open>NaN\<close>.

  Its own quicksort sorts an array of at most 16 keys by insertion, moving a position
  to the left only past strictly greater keys, so equal keys keep their order:
  \<open>stable_argsort\<close>.
\<close>

definition stable_argsort :: "real list \<Rightarrow> nat list" where
  "stable_argsort ks = sort_key (\<lambda>j. ks ! j) [0..<length ks]"

text \<open>
  On x86 processors with AVX-512 or AVX2 recent versions of the library dispatch to the
  vectorised sort \<^verbatim>\<open>x86-simd-sort\<close> instead. An array that fits into one vector
  register is loaded into its lanes, each key with its position, the unused lanes
  padded with the key \<open>+\<infinity>\<close> (\<open>None\<close> below) and position 0. \<^verbatim>\<open>sort_ymm_64bit\<close> sorts
  the four lanes of an AVX2 register by a network of three \<^verbatim>\<open>cmp_merge\<close> steps, on
  the lanes 0-1 and 2-3, then 0-3 and 1-2, then 0-1 and 2-3, and the lanes that were
  loaded are stored back. \<^verbatim>\<open>cmp_merge\<close> writes the minimum of the two keys to the
  lower lane and the maximum to the upper lane; a lane whose key is unchanged by that
  keeps its position and every other lane takes the position of its partner, so two
  lanes are exchanged exactly when the key of the upper lane is strictly less than
  that of the lower lane. The eight lanes of an AVX-512 register are sorted by the
  same three steps within each half, followed by three merging steps that find four
  keys padded with \<open>+\<infinity>\<close> already in order.

  Arrays of more than four keys take several registers and merging steps between them,
  which are not modelled: \<open>simd_argsort\<close> sorts them by insertion, and no statement about
  the order of equal keys is made of it there.
\<close>

definition key_less :: "real option \<Rightarrow> real option \<Rightarrow> bool" where
  "key_less a b =
     (case a of
        None \<Rightarrow> False
      | Some x \<Rightarrow> (case b of None \<Rightarrow> True | Some y \<Rightarrow> x < y))"

definition cmp_merge ::
  "nat \<times> nat \<Rightarrow> (real option \<times> nat) list \<Rightarrow> (real option \<times> nat) list" where
  "cmp_merge lanes reg =
     (case lanes of
        (lo, hi) \<Rightarrow>
          if key_less (fst (reg ! hi)) (fst (reg ! lo))
          then reg[lo := reg ! hi, hi := reg ! lo]
          else reg)"

definition sort_ymm_64bit :: "(real option \<times> nat) list \<Rightarrow> (real option \<times> nat) list" where
  "sort_ymm_64bit reg = fold cmp_merge [(0, 1), (2, 3), (0, 3), (1, 2), (0, 1), (2, 3)] reg"

definition argsort_n :: "real list \<Rightarrow> nat list" where
  "argsort_n ks =
     (let reg = map (\<lambda>j. (Some (ks ! j), j)) [0..<length ks]
                  @ replicate (4 - length ks) (None, 0)
      in map snd (take (length ks) (sort_ymm_64bit reg)))"

definition simd_argsort :: "real list \<Rightarrow> nat list" where
  "simd_argsort ks = (if length ks \<le> 4 then argsort_n ks else stable_argsort ks)"

text \<open>
  \<^verbatim>\<open>compare_treatments_analysis(results_df)\<close>. For a table without rows the list
  \<^verbatim>\<open>comparison\<close> is empty, the data frame built from it has no columns, and sorting it
  by \<^verbatim>\<open>'Mean_Success_Rate'\<close> raises \<^verbatim>\<open>KeyError\<close>.
\<close>

definition compare_treatments_analysis ::
  "(real list \<Rightarrow> nat list) \<Rightarrow> results_df \<Rightarrow> (py_error + comparison_row list) \<times> results_df" where
  "compare_treatments_analysis argsort df =
     (let comparison = map (comparison_of df) (unique (map r_treatment (rows df)))
      in if comparison = [] then (Inl KeyError, df)
         else (Inr (sort_values_desc argsort Mean_Success_Rate comparison), df))"

text \<open>
  \<^verbatim>\<open>pd.cut(x, bins=bins, labels=labels)\<close> with the defaults \<^verbatim>\<open>right=True\<close> and
  \<^verbatim>\<open>include_lowest=False\<close>: bin \<open>i\<close> is the interval from \<open>bins ! i\<close> (excluded) to
  \<open>bins ! (i + 1)\<close> (included), and a value in no bin gets no label.
\<close>

fun pd_cut :: "real list \<Rightarrow> string list \<Rightarrow> real \<Rightarrow> string option" where
  "pd_cut (lo # hi # bins) (l # labels) x =
     (if lo < x \<and> x \<le> hi then Some l else pd_cut (hi # bins) labels x)"
| "pd_cut bins labels x = None"

definition risk_bins :: "real list" where
  "risk_bins = [0, 30, 50, 70, 100]"

definition risk_labels :: "string list" where
  "risk_labels = [''Low'', ''Moderate'', ''High'', ''Very High'']"

record risk_row =
  n_patients :: nat
  mean_success_rate' :: real
  mean_complication_rate' :: real
  mean_recovery_time :: real
  mean_baseline_severity :: real

text \<open>The rows of the table whose entry in the \<^verbatim>\<open>risk_category\<close> column is the given
  category.\<close>

definition category_data :: "results_df \<Rightarrow> string \<Rightarrow> outcome list" where
  "category_data df category =
     (case risk_category df of
        None \<Rightarrow> []
      | Some col \<Rightarrow> map fst (filter (\<lambda>(r, c). c = Some category) (zip (rows df) col)))"

definition risk_row_of :: "outcome list \<Rightarrow> risk_row" where
  "risk_row_of cd =
     \<lparr>n_patients = length cd,
      mean_success_rate' = np_mean (map probability_of_success cd),
      mean_complication_rate' = np_mean (map probability_of_complications cd),
      mean_recovery_time = np_mean (map (\<lambda>r. mean (recovery_time r)) cd),
      mean_baseline_severity = np_mean (map r_baseline_severity cd)\<rparr>"

text \<open>
  \<^verbatim>\<open>risk_stratification_analysis(results_df)\<close>. The first statement assigns the column
  \<^verbatim>\<open>risk_category\<close> of the table it was given; the returned dictionary has its keys in
  insertion order and is an association list here.
\<close>

definition risk_stratification_analysis :: "results_df \<Rightarrow> (string \<times> risk_row) list \<times> results_df" where
  "risk_stratification_analysis df =
     (let df' = df\<lparr>risk_category :=
                     Some (map (\<lambda>r. pd_cut risk_bins risk_labels (r_baseline_severity r)) (rows df))\<rparr>;
          risk_analysis =
            concat (map (\<lambda>category.
                           if length (category_data df' category) > 0
                           then [(category, risk_row_of (category_data df' category))]
                           else [])
                      risk_labels)
      in (risk_analysis, df'))"

text \<open>
  The column \<^verbatim>\<open>results_df[...][metric]\<close> as numbers. A name that is not a column raises
  \<^verbatim>\<open>KeyError\<close>; the mean of a column of strings, dictionaries or categories raises
  \<^verbatim>\<open>TypeError\<close>.
\<close>

definition metric_column :: "results_df \<Rightarrow> string \<Rightarrow> py_error + (outcome \<Rightarrow> real)" where
  "metric_column df metric =
     (if metric = ''baseline_severity'' then Inr r_baseline_severity
      else if metric = ''simulations'' then Inr (\<lambda>r. real_of_int (simulations r))
      else if metric = ''probability_of_success'' then Inr probability_of_success
      else if metric = ''probability_of_complications'' then Inr probability_of_complications
      else if metric = ''expected_efficacy'' then Inr expected_efficacy
      else if metric = ''side_effect_severity'' then Inr r_side_effect_severity
      else if metric \<in> {''patient_id'', ''treatment'', ''final_severity'',
                         ''severity_reduction'', ''recovery_time''} then Inl TypeError
      else if metric = ''risk_category'' \<and> risk_category df \<noteq> None then Inl TypeError
      else Inl KeyError)"

text \<open>
  \<^verbatim>\<open>scipy.stats.t.interval(confidence, df, loc, scale)\<close>: the two quantiles
  \<open>(1 - confidence) / 2\<close> and \<open>(1 + confidence) / 2\<close> of the location-scale family.
  The quantile function of the standard distribution is library code and is the
  parameter \<open>t_ppf\<close> (probability first, degrees of freedom second). The library
  evaluates a quantile only for positive degrees of freedom and a positive scale that
  is a number; otherwise the result is \<^verbatim>\<open>nan\<close>. At probability \<open>0\<close> or \<open>1\<close> it is
  infinite. \<open>None\<close> stands for a result that is not a finite number.
\<close>

definition t_quantile :: "(real \<Rightarrow> int \<Rightarrow> real) \<Rightarrow> real \<Rightarrow> int \<Rightarrow> real \<Rightarrow> real option \<Rightarrow> real option" where
  "t_quantile t_ppf q dof loc scale =
     (case scale of
        None \<Rightarrow> None
      | Some sc \<Rightarrow> if 0 < dof \<and> 0 < sc \<and> 0 < q \<and> q < 1 then Some (loc + sc * t_ppf q dof) else None)"

definition t_interval ::
  "(real \<Rightarrow> int \<Rightarrow> real) \<Rightarrow> real \<Rightarrow> int \<Rightarrow> real \<Rightarrow> real option \<Rightarrow> real option \<times> real option" where
  "t_interval t_ppf confidence dof loc scale =
     (t_quantile t_ppf ((1 - confidence) / 2) dof loc scale,
      t_quantile t_ppf ((1 + confidence) / 2) dof loc scale)"

record ci_row = treatment_row +
  Mean :: real
  Lower_CI :: "real option"
  Upper_CI :: "real option"
  Margin_of_Error :: "real option"

definition ci_of :: "(real \<Rightarrow> int \<Rightarrow> real) \<Rightarrow> real \<Rightarrow> string \<Rightarrow> real list \<Rightarrow> ci_row" where
  "ci_of t_ppf confidence_level t data =
     (let mean' = np_mean data;
          std_err = pd_sem data;
          ci = t_interval t_ppf confidence_level (int (length data) - 1) mean' std_err
      in \<lparr>Treatment = t,
          Mean = mean',
          Lower_CI = fst ci,
          Upper_CI = snd ci,
          Margin_of_Error =
            (case (fst ci, snd ci) of (Some l, Some u) \<Rightarrow> Some ((u - l) / 2) | _ \<Rightarrow> None)\<rparr>)"

text \<open>
  \<^verbatim>\<open>confidence_interval_analysis(results_df, metric, confidence_level)\<close>. The loop body
  runs once per treatment of the table, so a table without rows returns an empty table
  whatever the metric is. \<^verbatim>\<open>t.interval\<close> raises \<^verbatim>\<open>ValueError\<close> for a confidence
  level outside \<open>[0, 1]\<close>. The source has no check on the size of a group.
\<close>

definition confidence_interval_analysis ::
  "(real \<Rightarrow> int \<Rightarrow> real) \<Rightarrow> results_df \<Rightarrow> string \<Rightarrow> real \<Rightarrow> (py_error + ci_row list) \<times> results_df" where
  "confidence_interval_analysis t_ppf df metric confidence_level =
     (let ts = unique (map r_treatment (rows df))
      in if ts = [] then (Inr [], df)
         else case metric_column df metric of
                Inl e \<Rightarrow> (Inl e, df)
              | Inr col \<Rightarrow>
                  if confidence_level < 0 \<or> 1 < confidence_level then (Inl ValueError, df)
                  else (Inr (map (\<lambda>t. ci_of t_ppf confidence_level t (map col (treatment_data df t))) ts),
                        df))"

subsection \<open>Example inputs\<close>

text \<open>A patient of the base population, and a stream of trial draws: trial 0 reduces
  severity by half without a complication, every later trial reduces it by a fifth and
  has a complication.\<close>

definition ex_patient :: patient where
  "ex_patient =
     \<lparr>patient_id = ''PT000001'', age = 50, gender = ''Male'', bmi = 30,
      baseline_systolic = 130, baseline_diastolic = 80, baseline_glucose = 100,
      baseline_hba1c = 6, disease = ''Hypertension'', treatment = ''Standard Care'',
      baseline_severity = 50\<rparr>"

definition ex_trials :: "nat \<Rightarrow> trial_draw" where
  "ex_trials i =
     (if i = 0 then \<lparr>beta_sample = 0.5, triangular_sample = 60, random_sample = 0.9\<rparr>
      else \<lparr>beta_sample = 0.2, triangular_sample = 70, random_sample = 0.01\<rparr>)"

text \<open>Draws for a base population: row 0 is a patient of 50 years with low
  measurements, whose diastolic pressure is clipped at 60; every later row is a patient
  whose age is clipped at 85, with high measurements.\<close>

definition ex_base_draws :: "nat \<Rightarrow> base_draw" where
  "ex_base_draws i =
     (if i = 0
      then \<lparr>gamma_sample = 20, gender_sample = 0.3, bmi_sample = 21.2,
            systolic_noise = - 6.44, diastolic_noise = - 8.72, glucose_noise = - 8.3,
            hba1c_noise = - 0.165, disease_sample = 0.3, treatment_sample = 0\<rparr>
      else \<lparr>gamma_sample = 60, gender_sample = 0.7, bmi_sample = 32.25,
            systolic_noise = 3.7, diastolic_noise = 4.35, glucose_noise = 16.5,
            hba1c_noise = 0.275, disease_sample = 0.7, treatment_sample = 1\<rparr>)"

text \<open>Draws for the amplification: the first synthetic patient gets the largest age
  jitter that \<^verbatim>\<open>randint(-5, 5)\<close> can return and positive noise, every later one a
  negative jitter and negative noise.\<close>

definition ex_amp_draws :: "nat \<Rightarrow> amp_draw" where
  "ex_amp_draws i =
     (if i = 0
      then \<lparr>sample_index = 0, id_number = 123456, age_jitter = 4, bmi_jitter = 1.5,
            systolic_jitter = 5, diastolic_jitter = 3, glucose_jitter = 8, hba1c_jitter = 0.2\<rparr>
      else \<lparr>sample_index = 0, id_number = 654321, age_jitter = - 3, bmi_jitter = - 1.5,
            systolic_jitter = - 4, diastolic_jitter = - 2, glucose_jitter = - 5,
            hba1c_jitter = - 0.15\<rparr>)"

text \<open>Patient tables that differ from the example patient in severity only.\<close>

definition ex_pair :: "patient list" where
  "ex_pair = [ex_patient\<lparr>baseline_severity := 0\<rparr>, ex_patient\<lparr>baseline_severity := 100\<rparr>]"

definition ex_eleven :: "patient list" where
  "ex_eleven = map (\<lambda>s. ex_patient\<lparr>baseline_severity := s\<rparr>)
                 [0, 10, 20, 30, 40, 50, 60, 70, 80, 90, 100]"

text \<open>Rows of a simulation result with a given treatment, baseline severity and
  success probability, and tables of such rows.\<close>

definition ex_stats :: stats where
  "ex_stats = \<lparr>mean = 20, median = 20, std = 5, percentile_5 = 10, percentile_25 = 15,
               percentile_75 = 25, percentile_95 = 30\<rparr>"

definition ex_recovery :: recovery_stats where
  "ex_recovery = \<lparr>mean = 60, median = 60, std = 10, percentile_5 = 40, percentile_25 = 50,
                  percentile_75 = 70, percentile_95 = 90, percentile_50 = 60,
                  percentile_90 = 80\<rparr>"

definition ex_outcome :: "string \<Rightarrow> real \<Rightarrow> real \<Rightarrow> outcome" where
  "ex_outcome t s ps =
     \<lparr>r_patient_id = ''PT000001'', r_treatment = t, r_baseline_severity = s,
      simulations = 1000, final_severity = ex_stats, severity_reduction = ex_stats,
      recovery_time = ex_recovery, probability_of_success = ps,
      probability_of_complications = 0.1, expected_efficacy = 0.6,
      r_side_effect_severity = 2.5\<rparr>"

definition ex_boundary_df :: results_df where
  "ex_boundary_df = \<lparr>rows = [ex_outcome ''Standard Care'' 30 0.5], risk_category = None\<rparr>"

definition ex_tie_df :: results_df where
  "ex_tie_df =
     \<lparr>rows = [ex_outcome ''Standard Care'' 40 0.5, ex_outcome ''Intensive Therapy'' 60 0.5],
      risk_category = None\<rparr>"

definition ex_four_df :: results_df where
  "ex_four_df =
     \<lparr>rows = [ex_outcome ''Standard Care'' 40 0.5, ex_outcome ''Intensive Therapy'' 60 0.4,
              ex_outcome ''Experimental Treatment'' 50 0.7,
              ex_outcome ''Combination Therapy'' 55 0.7],
      risk_category = None\<rparr>"

definition ex_rank_df :: results_df where
  "ex_rank_df =
     \<lparr>rows = [ex_outcome ''Standard Care'' 40 0.5, ex_outcome ''Intensive Therapy'' 60 0.7,
              ex_outcome ''Standard Care'' 60 0.7],
      risk_category = None\<rparr>"

definition ex_spread_df :: results_df where
  "ex_spread_df =
     \<lparr>rows = [ex_outcome ''Standard Care'' 40 0.4, ex_outcome ''Standard Care'' 60 0.6],
      risk_category = None\<rparr>"

subsection \<open>Predicates used in the statements\<close>

text \<open>The bounds that the base population clips each measurement to.\<close>

definition within_declared_bounds :: "patient \<Rightarrow> bool" where
  "within_declared_bounds p \<longleftrightarrow>
     30 \<le> age p \<and> age p \<le> 85
     \<and> 18 \<le> bmi p \<and> bmi p \<le> 50
     \<and> 90 \<le> baseline_systolic p \<and> baseline_systolic p \<le> 180
     \<and> 60 \<le> baseline_diastolic p \<and> baseline_diastolic p \<le> 120
     \<and> 70 \<le> baseline_glucose p \<and> baseline_glucose p \<le> 180
     \<and> 4.5 \<le> baseline_hba1c p \<and> baseline_hba1c p \<le> 10"

text \<open>The interval of each risk band as \<^verbatim>\<open>pd.cut\<close> draws it: open at the lower
  bin edge, closed at the upper one.\<close>

definition in_risk_band :: "string \<Rightarrow> real \<Rightarrow> bool" where
  "in_risk_band c s \<longleftrightarrow>
     (c = ''Low'' \<and> 0 < s \<and> s \<le> 30) \<or> (c = ''Moderate'' \<and> 30 < s \<and> s \<le> 50)
     \<or> (c = ''High'' \<and> 50 < s \<and> s \<le> 70) \<or> (c = ''Very High'' \<and> 70 < s \<and> s \<le> 100)"

section \<open>Properties of the simulator\<close>

subsection \<open>Mirror symmetry of the quantiles\<close>

lemma sort_mirror:
  fixes xs :: "real list"
  shows "sort (map (\<lambda>x. b - x) xs) = rev (map (\<lambda>x. b - x) (sort xs))"
proof (rule properties_for_sort)
  show "mset (rev (map (\<lambda>x. b - x) (sort xs))) = mset (map (\<lambda>x. b - x) xs)"
    by simp
  have "sorted_wrt (\<lambda>x y. b - y \<le> b - x) (sort xs)"
    by (rule sorted_wrt_mono_rel [of _ "(\<le>)"]) simp_all
  then show "sorted (rev (map (\<lambda>x. b - x) (sort xs)))"
    by (simp add: sorted_wrt_rev sorted_wrt_map)
qed

lemma linear_quantile_mirror:
  assumes ne: "xs \<noteq> []" and q0: "0 \<le> q" and q1: "q \<le> 1"
  shows "linear_quantile (map (\<lambda>x. b - x) xs) q = b - linear_quantile xs (1 - q)"
proof -
  define n where "n = length xs"
  define m where "m = n - 1"
  define s where "s = sort xs"
  define h where "h = real m * q"
  define lo where "lo = nat \<lfloor>h\<rfloor>"
  define g where "g = h - real lo"
  have n_pos: "0 < n" using ne by (simp add: n_def)
  have n_m: "n = Suc m" using n_pos by (simp add: m_def)
  have len_s: "length s = n" by (simp add: s_def n_def)
  have h0: "0 \<le> h" using q0 by (simp add: h_def)
  have hm: "h \<le> real m" using q1 by (simp add: h_def mult_left_le)
  have lo_le: "real lo \<le> h" using h0 by (simp add: lo_def)
  have lo_gt: "h < real lo + 1" using h0 by (simp add: lo_def)
  have lo_m: "lo \<le> m" using lo_le hm by linarith
  have mir: "rev (map (\<lambda>x. b - x) s) ! i = b - s ! (m - i)" if "i \<le> m" for i
    using that by (simp add: rev_nth len_s n_m)
  have raw: "linear_quantile (map (\<lambda>x. b - x) xs) q =
      rev (map (\<lambda>x. b - x) s) ! lo
        + g * (rev (map (\<lambda>x. b - x) s) ! min (lo + 1) m - rev (map (\<lambda>x. b - x) s) ! lo)"
    unfolding linear_quantile_def Let_def sort_mirror length_map
      s_def n_def m_def h_def lo_def g_def by (rule refl)
  have lhs: "linear_quantile (map (\<lambda>x. b - x) xs) q =
      (b - s ! (m - lo)) + g * ((b - s ! (m - min (lo + 1) m)) - (b - s ! (m - lo)))"
    unfolding raw using lo_m by (simp add: mir)
  have h'': "real (length xs - 1) * (1 - q) = real (length xs - 1) - h"
    by (simp add: h_def m_def n_def algebra_simps)
  have rhs: "linear_quantile xs (1 - q) =
      (let lo' = nat \<lfloor>real m - h\<rfloor>; hi' = min (lo' + 1) m
       in s ! lo' + (real m - h - real lo') * (s ! hi' - s ! lo'))"
    unfolding linear_quantile_def Let_def s_def n_def m_def h'' by (rule refl)
  show ?thesis
  proof (cases "h = real lo")
    case True
    have e: "real m - h = real (m - lo)" using True lo_m by simp
    have lo': "nat \<lfloor>real m - h\<rfloor> = m - lo" unfolding e by simp
    have g0: "g = 0" using True by (simp add: g_def)
    have d0: "real m - h - real (m - lo) = 0" using e by simp
    show ?thesis unfolding lhs rhs Let_def lo' g0 d0 by simp
  next
    case False
    then have lt: "real lo < h" using lo_le by simp
    then have "real lo < real m" using hm by linarith
    then have lo_lt: "lo < m" by simp
    have r: "real (m - lo - 1) = real m - real lo - 1" using lo_lt by simp
    have "of_int (int (m - lo - 1)) \<le> real m - h \<and> real m - h < of_int (int (m - lo - 1)) + 1"
      using lo_gt lt r by simp
    then have fl: "\<lfloor>real m - h\<rfloor> = int (m - lo - 1)" by (simp only: floor_eq_iff)
    then have lo': "nat \<lfloor>real m - h\<rfloor> = m - lo - 1" by simp
    have mn1: "min (lo + 1) m = lo + 1" using lo_lt by simp
    have mn2: "min (m - lo - 1 + 1) m = m - lo" using lo_lt by simp
    have d: "real m - h - real (m - lo - 1) = 1 - g" using r by (simp add: g_def)
    have ix: "m - (lo + 1) = m - lo - 1" by simp
    show ?thesis unfolding lhs rhs Let_def lo' mn1 mn2 d ix by (simp add: algebra_simps)
  qed
qed

lemma np_percentile_mirror:
  assumes "xs \<noteq> []" and "0 \<le> p" and "p \<le> 100"
  shows "np_percentile (map (\<lambda>x. b - x) xs) p = b - np_percentile xs (100 - p)"
proof -
  have "linear_quantile (map (\<lambda>x. b - x) xs) (p / 100) = b - linear_quantile xs (1 - p / 100)"
    using assms by (intro linear_quantile_mirror) simp_all
  moreover have "1 - p / 100 = (100 - p) / 100" by (simp add: field_simps)
  ultimately show ?thesis by (simp add: np_percentile_def)
qed

lemma sum_list_mirror:
  fixes xs :: "real list"
  shows "sum_list (map (\<lambda>x. b - x) xs) = real (length xs) * b - sum_list xs"
  by (induction xs) (simp_all add: algebra_simps)

lemma np_mean_mirror:
  assumes "xs \<noteq> []"
  shows "np_mean (map (\<lambda>x. b - x) xs) + np_mean xs = b"
  using assms by (simp add: np_mean_def sum_list_mirror field_simps)

lemma disjoint_counts:
  assumes "\<And>x. \<not> (P x \<and> Q x)"
  shows "length (filter P xs) + length (filter Q xs) \<le> length xs"
proof (induction xs)
  case Nil
  show ?case by simp
next
  case (Cons x xs)
  from assms [of x] Cons show ?case by auto
qed

lemma np_sum_bool_map: "np_sum_bool (map f xs) = length (filter f xs)"
  by (simp add: np_sum_bool_def filter_map comp_def)

lemma success_complications_counts:
  "np_sum_bool (success params p ds) + np_sum_bool (complications params p ds) \<le> length ds"
  unfolding success_def complications_def np_sum_bool_map
  by (rule disjoint_counts) simp

lemma simulate_returns:
  assumes "treatment_params (treatment p) = Some params" and "1 \<le> n"
  shows "simulate_treatment_outcome rng p n =
     Inr \<lparr>r_patient_id = patient_id p,
          r_treatment = treatment p,
          r_baseline_severity = baseline_severity p,
          simulations = n,
          final_severity = severity_bundle (final_severity_scores p (map rng [0..<nat n])),
          severity_reduction = severity_bundle (final_severity_reduction p (map rng [0..<nat n])),
          recovery_time = recovery_bundle (recovery_times (map rng [0..<nat n])),
          probability_of_success =
            real (np_sum_bool (success params p (map rng [0..<nat n]))) / real_of_int n,
          probability_of_complications =
            real (np_sum_bool (complications params p (map rng [0..<nat n]))) / real_of_int n,
          expected_efficacy = adjusted_efficacy_mean params p,
          r_side_effect_severity = side_effect_severity params\<rparr>"
  using assms by (simp add: simulate_treatment_outcome_def Let_def)

text \<open>
  Claim C9. For every patient whose treatment has a profile and every number of trials
  \<open>n \<ge> 1\<close>, the simulation returns a summary, and in it the probability of success plus
  the probability of complications is at most 1: a trial counts as a success only if
  it had no complication, so no trial is counted twice.
\<close>

theorem simulate_success_complication_sum:
  assumes "treatment p \<in> dom treatment_params" and "1 \<le> n"
  shows "\<exists>r. simulate_treatment_outcome rng p n = Inr r
            \<and> probability_of_success r + probability_of_complications r \<le> 1"
proof -
  from assms(1) obtain params where params: "treatment_params (treatment p) = Some params"
    by auto
  define ds where "ds = map rng [0..<nat n]"
  have len: "real (length ds) = real_of_int n" using assms(2) by (simp add: ds_def)
  have "real (np_sum_bool (success params p ds)) + real (np_sum_bool (complications params p ds))
          \<le> real (length ds)"
    using success_complications_counts [of params p ds] by linarith
  then have "real (np_sum_bool (success params p ds)) / real_of_int n
           + real (np_sum_bool (complications params p ds)) / real_of_int n \<le> 1"
    using assms(2) unfolding len by (simp add: add_divide_distrib [symmetric])
  then show ?thesis
    unfolding simulate_returns [OF params assms(2)] ds_def by simp
qed

theorem simulate_success_complication_sum_witness:
  "treatment ex_patient \<in> dom treatment_params \<and> (1::int) \<le> 2
   \<and> (\<exists>r. simulate_treatment_outcome ex_trials ex_patient 2 = Inr r
          \<and> probability_of_success r + probability_of_complications r \<le> 1)"
  using simulate_success_complication_sum [of ex_patient 2 ex_trials]
  by (simp add: ex_patient_def treatment_params_def)

text \<open>
  Claim C10. For every patient whose treatment has a profile and every number of trials
  \<open>n \<ge> 1\<close>, the simulation returns a summary in which final severity mirrors severity
  reduction about the baseline: in every trial the final severity is the baseline minus
  the reduction; the two means add up to the baseline; and the \<open>q\<close>-th percentile of
  final severity is the baseline minus the \<open>(100 - q)\<close>-th percentile of the reduction,
  for every \<open>q\<close> from 0 to 100 and in particular for the stored percentiles 5, 25, 75
  and 95.
\<close>

theorem simulate_severity_mirror:
  assumes "treatment p \<in> dom treatment_params" and "1 \<le> n"
  shows "\<exists>r. simulate_treatment_outcome rng p n = Inr r
      \<and> r_baseline_severity r = baseline_severity p
      \<and> (\<forall>i < nat n. final_severity_scores p (map rng [0..<nat n]) ! i
            = baseline_severity p - final_severity_reduction p (map rng [0..<nat n]) ! i)
      \<and> mean (final_severity r) + mean (severity_reduction r) = r_baseline_severity r
      \<and> percentile_5 (final_severity r) = r_baseline_severity r - percentile_95 (severity_reduction r)
      \<and> percentile_25 (final_severity r) = r_baseline_severity r - percentile_75 (severity_reduction r)
      \<and> percentile_75 (final_severity r) = r_baseline_severity r - percentile_25 (severity_reduction r)
      \<and> percentile_95 (final_severity r) = r_baseline_severity r - percentile_5 (severity_reduction r)
      \<and> (\<forall>q. 0 \<le> q \<and> q \<le> 100 \<longrightarrow>
            np_percentile (final_severity_scores p (map rng [0..<nat n])) q
              = baseline_severity p
                - np_percentile (final_severity_reduction p (map rng [0..<nat n])) (100 - q))"
proof -
  from assms(1) obtain params where params: "treatment_params (treatment p) = Some params"
    by auto
  define red where "red = final_severity_reduction p (map rng [0..<nat n])"
  have fin: "final_severity_scores p (map rng [0..<nat n]) = map (\<lambda>x. baseline_severity p - x) red"
    by (simp add: final_severity_scores_def red_def)
  have len: "length red = nat n" by (simp add: red_def final_severity_reduction_def)
  then have ne: "red \<noteq> []" using assms(2) by auto
  have per: "np_percentile (map (\<lambda>x. baseline_severity p - x) red) q
               = baseline_severity p - np_percentile red (100 - q)"
    if "0 \<le> q" "q \<le> 100" for q
    using np_percentile_mirror [OF ne that] .
  have trial: "\<forall>i < nat n. map (\<lambda>x. baseline_severity p - x) red ! i = baseline_severity p - red ! i"
    using len by simp
  have mn: "np_mean (map (\<lambda>x. baseline_severity p - x) red) + np_mean red = baseline_severity p"
    using np_mean_mirror [OF ne] .
  show ?thesis
    unfolding simulate_returns [OF params assms(2)] fin red_def [symmetric]
    using trial mn per [of 5] per [of 25] per [of 75] per [of 95] per
    by (simp add: severity_bundle_def)
qed

theorem simulate_severity_mirror_witness:
  "treatment ex_patient \<in> dom treatment_params \<and> (1::int) \<le> 2
   \<and> (\<exists>r. simulate_treatment_outcome ex_trials ex_patient 2 = Inr r
          \<and> mean (final_severity r) + mean (severity_reduction r) = 50
          \<and> percentile_5 (final_severity r) = 50 - percentile_95 (severity_reduction r)
          \<and> percentile_95 (final_severity r) = 50 - percentile_5 (severity_reduction r))"
  using simulate_severity_mirror [of ex_patient 2 ex_trials]
  by (auto simp add: ex_patient_def treatment_params_def)

text \<open>
  Claim C2, as the code has it. \<^verbatim>\<open>simulate_treatment_outcome\<close> has no check on the
  number of trials and raises no exception of its own. For a patient whose treatment has
  a profile: with \<open>n \<ge> 1\<close> it returns a summary over \<open>n\<close> simulations; with \<open>n < 0\<close> the
  array allocation raises \<^verbatim>\<open>ValueError\<close>; with \<open>n = 0\<close> the percentile of an empty
  array raises \<^verbatim>\<open>IndexError\<close>.
\<close>

theorem simulate_no_parameter_check:
  assumes "treatment p \<in> dom treatment_params"
  shows "(1 \<le> n \<longrightarrow> (\<exists>r. simulate_treatment_outcome rng p n = Inr r \<and> simulations r = n))
       \<and> (n = 0 \<longrightarrow> simulate_treatment_outcome rng p n = Inl IndexError)
       \<and> (n < 0 \<longrightarrow> simulate_treatment_outcome rng p n = Inl ValueError)"
  using assms by (auto simp add: simulate_treatment_outcome_def Let_def)

theorem simulate_no_parameter_check_witness:
  "treatment ex_patient \<in> dom treatment_params
   \<and> (\<exists>r. simulate_treatment_outcome ex_trials ex_patient 1 = Inr r \<and> simulations r = 1)
   \<and> simulate_treatment_outcome ex_trials ex_patient (- 1) = Inl ValueError"
  using simulate_no_parameter_check [of ex_patient 1 ex_trials]
    simulate_no_parameter_check [of ex_patient "- 1" ex_trials]
  by (simp add: ex_patient_def treatment_params_def)

text \<open>
  With zero trials the example patient gets the error of the array library, raised
  while the statistics are computed, and not a parameter error raised on entry.
\<close>

theorem zero_trials_counterexample:
  "simulate_treatment_outcome ex_trials ex_patient 0 = Inl IndexError"
  by (simp add: simulate_treatment_outcome_def ex_patient_def treatment_params_def)

section \<open>Properties of the generator\<close>

subsection \<open>Clipping and rounding keep a value within its bounds\<close>

lemma np_clip_bounds: "lo \<le> hi \<Longrightarrow> lo \<le> np_clip x lo hi \<and> np_clip x lo hi \<le> hi"
  by (simp add: np_clip_def)

lemma rint_ge: "of_int a \<le> x \<Longrightarrow> a \<le> rint x"
proof -
  assume "of_int a \<le> x"
  then have "a \<le> \<lfloor>x\<rfloor>" by (simp add: le_floor_iff)
  then show ?thesis by (simp add: rint_def Let_def)
qed

lemma rint_le: "x \<le> of_int b \<Longrightarrow> rint x \<le> b"
proof -
  assume xb: "x \<le> of_int b"
  then have fb: "\<lfloor>x\<rfloor> \<le> b" by (simp add: floor_le_iff)
  show ?thesis
  proof (cases "\<lfloor>x\<rfloor> = b")
    case True
    have "of_int \<lfloor>x\<rfloor> \<le> x" by simp
    with True xb have "x = of_int b" by simp
    then show ?thesis by (simp add: rint_def Let_def)
  next
    case False
    with fb have "\<lfloor>x\<rfloor> + 1 \<le> b" by simp
    then show ?thesis by (simp add: rint_def Let_def)
  qed
qed

lemma np_round_bounds:
  assumes "of_int a / 10 ^ d \<le> x" and "x \<le> of_int b / 10 ^ d"
  shows "of_int a / 10 ^ d \<le> np_round x d \<and> np_round x d \<le> of_int b / 10 ^ d"
proof -
  have "of_int a \<le> x * 10 ^ d" using assms(1) by (simp add: field_simps)
  then have 1: "a \<le> rint (x * 10 ^ d)" by (rule rint_ge)
  have "x * 10 ^ d \<le> of_int b" using assms(2) by (simp add: field_simps)
  then have 2: "rint (x * 10 ^ d) \<le> b" by (rule rint_le)
  from 1 2 show ?thesis
    by (simp add: np_round_def divide_le_cancel)
qed

lemma round_clip:
  assumes "of_int a / 10 ^ d \<le> of_int b / (10 ^ d :: real)"
  shows "of_int a / 10 ^ d \<le> np_round (np_clip x (of_int a / 10 ^ d) (of_int b / 10 ^ d)) d
       \<and> np_round (np_clip x (of_int a / 10 ^ d) (of_int b / 10 ^ d)) d \<le> of_int b / 10 ^ d"
  using np_clip_bounds [OF assms, of x] by (intro np_round_bounds) simp_all

lemma age_bounds: "30 \<le> astype_int (np_clip x 30 85) \<and> astype_int (np_clip x 30 85) \<le> 85"
proof -
  have b: "30 \<le> np_clip x 30 85 \<and> np_clip x 30 85 \<le> 85"
    by (rule np_clip_bounds) simp
  then have "astype_int (np_clip x 30 85) = \<lfloor>np_clip x 30 85\<rfloor>"
    by (simp add: astype_int_def)
  moreover have "30 \<le> \<lfloor>np_clip x 30 85\<rfloor>" using b by (simp add: le_floor_iff)
  moreover have "\<lfloor>np_clip x 30 85\<rfloor> \<le> 85" using b by (simp add: floor_le_iff)
  ultimately show ?thesis by simp
qed

lemma base_patient_bounds: "within_declared_bounds (base_patient i d)"
proof -
  have r1: "18 \<le> np_round (np_clip x 18 50) 1 \<and> np_round (np_clip x 18 50) 1 \<le> 50" for x
    using round_clip [of 180 1 500 x] by simp
  have r2: "90 \<le> np_round (np_clip x 90 180) 0 \<and> np_round (np_clip x 90 180) 0 \<le> 180" for x
    using round_clip [of 90 0 180 x] by simp
  have r3: "60 \<le> np_round (np_clip x 60 120) 0 \<and> np_round (np_clip x 60 120) 0 \<le> 120" for x
    using round_clip [of 60 0 120 x] by simp
  have r4: "70 \<le> np_round (np_clip x 70 180) 0 \<and> np_round (np_clip x 70 180) 0 \<le> 180" for x
    using round_clip [of 70 0 180 x] by simp
  have r5: "4.5 \<le> np_round (np_clip x 4.5 10) 2 \<and> np_round (np_clip x 4.5 10) 2 \<le> 10" for x
    using round_clip [of 450 2 1000 x] by simp
  show ?thesis
    unfolding within_declared_bounds_def base_patient_def ages_col_def bmi_col_def
      systolic_col_def diastolic_col_def glucose_col_def hba1c_col_def Let_def
    using age_bounds r1 r2 r3 r4 r5 by simp
qed

lemma base_patient_severity:
  "0 \<le> baseline_severity (base_patient i d) \<and> baseline_severity (base_patient i d) \<le> 100"
proof -
  have "0 \<le> np_round (np_clip x 0 100) 1 \<and> np_round (np_clip x 0 100) 1 \<le> 100" for x
    using round_clip [of 0 1 1000 x] by simp
  then show ?thesis
    unfolding base_patient_def severity_col_def by simp
qed

lemma perturbed_copy_keeps:
  "baseline_severity (perturbed_copy b d) = baseline_severity b"
  "gender (perturbed_copy b d) = gender b"
  "disease (perturbed_copy b d) = disease b"
  "treatment (perturbed_copy b d) = treatment b"
  by (simp_all add: perturbed_copy_def)

lemma synthetic_patient_source:
  assumes "pool \<noteq> []"
  shows "\<exists>b \<in> set pool. synthetic_patient pool d = perturbed_copy b d"
proof -
  have "sample_index d mod length pool < length pool" using assms by simp
  then have "pool ! (sample_index d mod length pool) \<in> set pool" by (rule nth_mem)
  then show ?thesis unfolding synthetic_patient_def by blast
qed

lemma round_to_double_scaled:
  assumes "x \<noteq> 0" and "\<bar>x\<bar> < 2 ^ 53"
  shows "\<exists>n. round_to_double x = of_int (rint (x * 2 ^ n)) / 2 ^ n"
proof -
  define e where "e = \<lfloor>log 2 \<bar>x\<bar>\<rfloor> - 52"
  have "\<bar>x\<bar> < 2 powr 53" using assms(2) by simp
  moreover have "0 < \<bar>x\<bar>" using assms(1) by simp
  ultimately have "log 2 \<bar>x\<bar> < 53" by (simp add: log_less_iff)
  then have "\<lfloor>log 2 \<bar>x\<bar>\<rfloor> < 53" by (simp add: floor_less_iff)
  then have e0: "e \<le> 0" by (simp add: e_def)
  define n where "n = nat (- e)"
  have en: "e = - int n" using e0 by (simp add: n_def)
  have p: "2 powr of_int e = 1 / (2 ^ n :: real)"
    unfolding en by (simp add: powr_minus powr_realpow divide_simps)
  have "round_to_double x = of_int (rint (x / 2 powr of_int e)) * 2 powr of_int e"
    using assms(1) by (simp add: round_to_double_def Let_def e_def)
  then have "round_to_double x = of_int (rint (x * 2 ^ n)) / 2 ^ n"
    unfolding p by simp
  then show ?thesis ..
qed

lemma round_to_double_ge:
  assumes "\<bar>x\<bar> < 2 ^ 53" and "of_int k \<le> x"
  shows "of_int k \<le> round_to_double x"
proof (cases "x = 0")
  case True
  with assms(2) show ?thesis by (simp add: round_to_double_def)
next
  case False
  from round_to_double_scaled [OF False assms(1)]
  obtain n where r: "round_to_double x = of_int (rint (x * 2 ^ n)) / 2 ^ n" ..
  have "of_int (k * 2 ^ n) \<le> x * 2 ^ n" using assms(2) by simp
  then have "k * 2 ^ n \<le> rint (x * 2 ^ n)" by (rule rint_ge)
  then have "real_of_int (k * 2 ^ n) \<le> of_int (rint (x * 2 ^ n))" by (simp only: of_int_le_iff)
  then show ?thesis unfolding r by (simp add: field_simps)
qed

lemma round_to_double_le:
  assumes "\<bar>x\<bar> < 2 ^ 53" and "x \<le> of_int k"
  shows "round_to_double x \<le> of_int k"
proof (cases "x = 0")
  case True
  with assms(2) show ?thesis by (simp add: round_to_double_def)
next
  case False
  from round_to_double_scaled [OF False assms(1)]
  obtain n where r: "round_to_double x = of_int (rint (x * 2 ^ n)) / 2 ^ n" ..
  have "x * 2 ^ n \<le> of_int (k * 2 ^ n)" using assms(2) by simp
  then have "rint (x * 2 ^ n) \<le> k * 2 ^ n" by (rule rint_le)
  then have "real_of_int (rint (x * 2 ^ n)) \<le> of_int (k * 2 ^ n)" by (simp only: of_int_le_iff)
  then show ?thesis unfolding r by (simp add: field_simps)
qed

lemma round_to_double_int:
  assumes "\<bar>real_of_int k\<bar> < 2 ^ 53"
  shows "round_to_double (of_int k) = of_int k"
  using round_to_double_ge [OF assms, of k] round_to_double_le [OF assms, of k] by simp

lemma round_to_double_small: "round_to_double 1 = 1" "round_to_double 2 = 2"
  using round_to_double_int [of 1] round_to_double_int [of 2] by simp_all

lemma floor_log2_between:
  assumes "2 ^ k \<le> x" and "x < 2 ^ (Suc k)"
  shows "\<lfloor>log 2 x\<rfloor> = int k"
proof -
  have "(0::real) < 2 ^ k" by simp
  with assms(1) have pos: "0 < x" by linarith
  have "real k \<le> log 2 x"
    using assms(1) pos by (simp add: le_log_iff powr_realpow)
  moreover have "log 2 x < real k + 1"
    using assms(2) pos by (simp add: log_less_iff powr_realpow powr_add)
  ultimately show ?thesis by (simp add: floor_eq_iff)
qed

lemma round_to_double_thirty:
  "round_to_double (100 * (5404319552844595 / 18014398509481984)) = 30"
proof -
  define x :: real where "x = 100 * (5404319552844595 / 18014398509481984)"
  have x0: "x \<noteq> 0" by (simp add: x_def)
  have "\<lfloor>log 2 x\<rfloor> = int 4"
    by (rule floor_log2_between) (simp_all add: x_def)
  then have e: "\<lfloor>log 2 \<bar>x\<bar>\<rfloor> - 52 = - 48" by (simp add: x_def)
  have p: "2 powr of_int (- 48) = 1 / (2 ^ 48 :: real)"
    by (simp add: powr_minus powr_numeral divide_simps)
  have s: "x / (1 / 2 ^ 48) = 8444249301319679 + 11 / 16"
    by (simp add: x_def)
  have f: "\<lfloor>8444249301319679 + 11 / 16 :: real\<rfloor> = 8444249301319679"
    by (simp add: floor_eq_iff)
  have r: "rint (8444249301319679 + 11 / 16) = 8444249301319680"
    unfolding rint_def Let_def f by simp
  have "round_to_double x = of_int (rint (x / 2 powr of_int (- 48))) * 2 powr of_int (- 48)"
    using x0 e by (simp add: round_to_double_def Let_def)
  also have "\<dots> = 30" unfolding p s r by simp
  finally show ?thesis unfolding x_def .
qed

lemma round_to_double_below_245:
  "round_to_double (700 * (3152519739159347 / 9007199254740992))
     = 8620171161763839 / 35184372088832"
proof -
  define x :: real where "x = 700 * (3152519739159347 / 9007199254740992)"
  have x0: "x \<noteq> 0" by (simp add: x_def)
  have "\<lfloor>log 2 x\<rfloor> = int 7"
    by (rule floor_log2_between) (simp_all add: x_def)
  then have e: "\<lfloor>log 2 \<bar>x\<bar>\<rfloor> - 52 = - 45" by (simp add: x_def)
  have p: "2 powr of_int (- 45) = 1 / (2 ^ 45 :: real)"
    by (simp add: powr_minus powr_numeral divide_simps)
  have s: "x / (1 / 2 ^ 45) = 8620171161763839 + 29 / 64"
    by (simp add: x_def)
  have f: "\<lfloor>8620171161763839 + 29 / 64 :: real\<rfloor> = 8620171161763839"
    by (simp add: floor_eq_iff)
  have r: "rint (8620171161763839 + 29 / 64) = 8620171161763839"
    unfolding rint_def Let_def f by simp
  have "round_to_double x = of_int (rint (x / 2 powr of_int (- 45))) * 2 powr of_int (- 45)"
    using x0 e by (simp add: round_to_double_def Let_def)
  also have "\<dots> = 8620171161763839 / 35184372088832" unfolding p s r by simp
  finally show ?thesis unfolding x_def .
qed

subsection \<open>Amplification\<close>

lemma synthetic_length:
  "int (length (synthetic_high_risk rng df factor @ synthetic_low_risk rng df factor))
     = max 0 (n_synthetic df factor)"
proof -
  have "int (nat (n div 2) + nat (n - n div 2)) = max 0 n" for n :: int
    by arith
  from this [of "n_synthetic df factor"] show ?thesis
    by (simp add: synthetic_high_risk_def synthetic_low_risk_def n_low_risk_def n_high_risk_def)
qed

lemma n_synthetic_floor:
  assumes "0 \<le> factor" and "real (length df) * factor < 2 ^ 53"
  shows "0 \<le> n_synthetic df factor"
    and "n_synthetic df factor = \<lfloor>real (length df) * factor\<rfloor>
         \<or> n_synthetic df factor = \<lfloor>real (length df) * factor\<rfloor> + 1"
proof -
  define p where "p = real (length df) * factor"
  define k where "k = \<lfloor>p\<rfloor>"
  have p0: "0 \<le> p" using assms(1) by (simp add: p_def)
  then have ab: "\<bar>p\<bar> < 2 ^ 53" using assms(2) by (simp add: p_def)
  have "of_int 0 \<le> round_to_double p" using p0 by (intro round_to_double_ge [OF ab]) simp
  then have r0: "0 \<le> round_to_double p" by simp
  then have n: "n_synthetic df factor = \<lfloor>round_to_double p\<rfloor>"
    by (simp add: n_synthetic_def astype_int_def p_def)
  from r0 show "0 \<le> n_synthetic df factor" by (simp add: n)
  have lo: "of_int k \<le> round_to_double p"
    by (rule round_to_double_ge [OF ab]) (simp add: k_def)
  have "p \<le> of_int (k + 1)" by (simp add: k_def)
  then have hi: "round_to_double p \<le> of_int (k + 1)"
    by (rule round_to_double_le [OF ab])
  from lo have "k \<le> \<lfloor>round_to_double p\<rfloor>" by (simp add: le_floor_iff)
  moreover from hi have "\<lfloor>round_to_double p\<rfloor> \<le> k + 1" by (simp add: floor_le_iff)
  ultimately have "\<lfloor>round_to_double p\<rfloor> = k \<or> \<lfloor>round_to_double p\<rfloor> = k + 1" by linarith
  then show "n_synthetic df factor = \<lfloor>real (length df) * factor\<rfloor>
         \<or> n_synthetic df factor = \<lfloor>real (length df) * factor\<rfloor> + 1"
    unfolding n k_def p_def .
qed

text \<open>
  Claim C4, as the code has it. For every factor \<open>\<ge> 0\<close>, \<^verbatim>\<open>amplify_edge_cases\<close> either
  raises \<^verbatim>\<open>ValueError\<close>, which it does exactly when it has to draw at least one
  patient from a pool that is empty, or returns the rows of the input, unchanged and in
  their order, followed by exactly \<^verbatim>\<open>int(len(df) * amplification_factor)\<close> synthetic
  rows. The product is the double-precision one: the count is \<open>\<lfloor>len(df) * factor\<rfloor>\<close> of
  the exact product or one more, the latter when the exact product is rounded up to
  an integer. (The product is taken below \<open>2\<^sup>5\<^sup>3\<close>, far above any table.)
\<close>

theorem amplify_appends_synthetic_rows:
  assumes "0 \<le> factor" and "real (length df) * factor < 2 ^ 53"
  shows "(if (0 < n_high_risk df factor \<and> high_risk_samples df = [])
             \<or> (0 < n_low_risk df factor \<and> low_risk_samples df = [])
          then amplify_edge_cases rng df factor = Inl ValueError
          else \<exists>synth. amplify_edge_cases rng df factor = Inr (df @ synth)
                 \<and> int (length synth) = n_synthetic df factor)
       \<and> (n_synthetic df factor = \<lfloor>real (length df) * factor\<rfloor>
            \<or> n_synthetic df factor = \<lfloor>real (length df) * factor\<rfloor> + 1)"
proof -
  have "int (length (synthetic_high_risk rng df factor @ synthetic_low_risk rng df factor))
          = n_synthetic df factor"
    using synthetic_length [of rng df factor] n_synthetic_floor(1) [OF assms] by simp
  then have "if (0 < n_high_risk df factor \<and> high_risk_samples df = [])
             \<or> (0 < n_low_risk df factor \<and> low_risk_samples df = [])
          then amplify_edge_cases rng df factor = Inl ValueError
          else \<exists>synth. amplify_edge_cases rng df factor = Inr (df @ synth)
                 \<and> int (length synth) = n_synthetic df factor"
    by (auto simp add: amplify_edge_cases_def)
  with n_synthetic_floor(2) [OF assms] show ?thesis by blast
qed

lemma ex_counts:
  "n_synthetic [a, b] 1 = 2" "n_high_risk [a, b] 1 = 1" "n_low_risk [a, b] 1 = 1"
  "n_synthetic [a] 1 = 1" "n_high_risk [a] 1 = 0" "n_low_risk [a] 1 = 1"
  by (simp_all add: n_low_risk_def n_high_risk_def n_synthetic_def astype_int_def
      round_to_double_small)

theorem amplify_appends_synthetic_rows_witness:
  "(0::real) \<le> 1 \<and> real (length ex_pair) * 1 < 2 ^ 53
   \<and> (\<exists>synth. amplify_edge_cases ex_amp_draws ex_pair 1 = Inr (ex_pair @ synth)
          \<and> int (length synth) = 2)
   \<and> n_synthetic ex_pair 1 = \<lfloor>real (length ex_pair) * 1\<rfloor>"
proof -
  have h: "real (length ex_pair) * 1 < 2 ^ 53" by (simp add: ex_pair_def)
  have pools: "high_risk_samples ex_pair \<noteq> []" "low_risk_samples ex_pair \<noteq> []"
    by (simp_all add: ex_pair_def ex_patient_def high_risk_samples_def low_risk_samples_def
        linear_quantile_def)
  have f: "n_synthetic ex_pair 1 = \<lfloor>real (length ex_pair) * 1\<rfloor>"
    by (simp add: ex_pair_def ex_counts)
  from amplify_appends_synthetic_rows [of 1 ex_pair ex_amp_draws, OF _ h] pools
  have "\<exists>synth. amplify_edge_cases ex_amp_draws ex_pair 1 = Inr (ex_pair @ synth)
          \<and> int (length synth) = 2"
    by (simp add: ex_pair_def ex_counts)
  with h f show ?thesis by simp
qed

text \<open>
  A table of one patient is not empty, but no severity is below its own 10th percentile:
  with factor 1 the single synthetic patient is due from the empty low-risk pool, and
  the call raises instead of returning two rows.
\<close>

theorem amplify_single_patient_counterexample:
  "amplify_edge_cases ex_amp_draws [ex_patient] 1 = Inl ValueError"
  by (simp add: amplify_edge_cases_def ex_counts low_risk_samples_def linear_quantile_def)

text \<open>
  For 100 patients and the double nearest to 0.3, which is a little less than 0.3, the
  exact product is a little less than 30 and is rounded to 30: the code adds 30 rows,
  one more than the floor of the product.
\<close>

lemma n_synthetic_rounds_up:
  "n_synthetic (replicate 100 ex_patient) (5404319552844595 / 18014398509481984) = 30"
  "\<lfloor>real (length (replicate 100 ex_patient)) * (5404319552844595 / 18014398509481984)\<rfloor>
     = (29::int)"
  using round_to_double_thirty
  by (simp_all add: n_synthetic_def astype_int_def floor_eq_iff)

text \<open>
  For 700 patients and the double nearest to 0.35 the exact product is a little less
  than 245 and is rounded to the double just below 245: the code adds 244 rows.
\<close>

lemma n_synthetic_rounds_down:
  "n_synthetic (replicate 700 ex_patient) (3152519739159347 / 9007199254740992) = 244"
  using round_to_double_below_245
  by (simp add: n_synthetic_def astype_int_def floor_eq_iff)

lemma amplify_result:
  assumes "amplify_edge_cases rng df factor = Inr out"
  shows "out = df @ (synthetic_high_risk rng df factor @ synthetic_low_risk rng df factor)"
    and "0 < n_high_risk df factor \<Longrightarrow> high_risk_samples df \<noteq> []"
    and "0 < n_low_risk df factor \<Longrightarrow> low_risk_samples df \<noteq> []"
  using assms by (auto simp add: amplify_edge_cases_def split: if_splits)

lemma amplify_sources:
  assumes "amplify_edge_cases rng df factor = Inr out"
  shows "\<forall>s \<in> set (synthetic_high_risk rng df factor). \<exists>b \<in> set (high_risk_samples df). \<exists>d.
            s = perturbed_copy b d"
    and "\<forall>s \<in> set (synthetic_low_risk rng df factor). \<exists>b \<in> set (low_risk_samples df). \<exists>d.
            s = perturbed_copy b d"
proof -
  show "\<forall>s \<in> set (synthetic_high_risk rng df factor). \<exists>b \<in> set (high_risk_samples df). \<exists>d.
            s = perturbed_copy b d"
  proof
    fix s assume "s \<in> set (synthetic_high_risk rng df factor)"
    then obtain i where i: "i < nat (n_high_risk df factor)"
      and s: "s = synthetic_patient (high_risk_samples df) (rng i)"
      by (auto simp add: synthetic_high_risk_def)
    from i have "0 < n_high_risk df factor" by simp
    then have "high_risk_samples df \<noteq> []" by (rule amplify_result(2) [OF assms])
    from synthetic_patient_source [OF this, of "rng i"] s
    show "\<exists>b \<in> set (high_risk_samples df). \<exists>d. s = perturbed_copy b d" by blast
  qed
  show "\<forall>s \<in> set (synthetic_low_risk rng df factor). \<exists>b \<in> set (low_risk_samples df). \<exists>d.
            s = perturbed_copy b d"
  proof
    fix s assume "s \<in> set (synthetic_low_risk rng df factor)"
    then obtain i where i: "i < nat (n_low_risk df factor)"
      and s: "s = synthetic_patient (low_risk_samples df) (rng (nat (n_high_risk df factor) + i))"
      by (auto simp add: synthetic_low_risk_def)
    from i have "0 < n_low_risk df factor" by simp
    then have "low_risk_samples df \<noteq> []" by (rule amplify_result(3) [OF assms])
    from synthetic_patient_source [OF this, of "rng (nat (n_high_risk df factor) + i)"] s
    show "\<exists>b \<in> set (low_risk_samples df). \<exists>d. s = perturbed_copy b d" by blast
  qed
qed

lemma pool_membership:
  "b \<in> set (high_risk_samples df)
     \<longleftrightarrow> b \<in> set df \<and> linear_quantile (map baseline_severity df) 0.9 < baseline_severity b"
  "b \<in> set (low_risk_samples df)
     \<longleftrightarrow> b \<in> set df \<and> baseline_severity b < linear_quantile (map baseline_severity df) 0.1"
  by (simp_all add: high_risk_samples_def low_risk_samples_def)

text \<open>
  Claim C5, as the code has it. When \<^verbatim>\<open>amplify_edge_cases\<close> returns, every synthetic
  high-severity patient is a perturbed copy of an input patient whose baseline severity
  is strictly greater than the 90th percentile of the input severities, and every
  synthetic low-severity patient is a perturbed copy of an input patient whose severity
  is strictly less than the 10th percentile. The pools are cut with \<open><\<close> and \<open>>\<close>: an
  input patient is a possible source exactly when its severity is strictly beyond the
  percentile, so a patient whose severity equals the percentile is not.
\<close>

theorem amplify_sources_strictly_extreme:
  assumes "amplify_edge_cases rng df factor = Inr out"
  shows "out = df @ (synthetic_high_risk rng df factor @ synthetic_low_risk rng df factor)
     \<and> (\<forall>s \<in> set (synthetic_high_risk rng df factor). \<exists>b \<in> set df. \<exists>d.
            linear_quantile (map baseline_severity df) 0.9 < baseline_severity b
            \<and> s = perturbed_copy b d)
     \<and> (\<forall>s \<in> set (synthetic_low_risk rng df factor). \<exists>b \<in> set df. \<exists>d.
            baseline_severity b < linear_quantile (map baseline_severity df) 0.1
            \<and> s = perturbed_copy b d)
     \<and> (\<forall>b \<in> set df. b \<in> set (high_risk_samples df)
            \<longleftrightarrow> linear_quantile (map baseline_severity df) 0.9 < baseline_severity b)
     \<and> (\<forall>b \<in> set df. b \<in> set (low_risk_samples df)
            \<longleftrightarrow> baseline_severity b < linear_quantile (map baseline_severity df) 0.1)"
proof (intro conjI)
  show "out = df @ (synthetic_high_risk rng df factor @ synthetic_low_risk rng df factor)"
    by (rule amplify_result(1) [OF assms])
  show "\<forall>s \<in> set (synthetic_high_risk rng df factor). \<exists>b \<in> set df. \<exists>d.
            linear_quantile (map baseline_severity df) 0.9 < baseline_severity b
            \<and> s = perturbed_copy b d"
    using amplify_sources(1) [OF assms] by (fastforce simp add: pool_membership)
  show "\<forall>s \<in> set (synthetic_low_risk rng df factor). \<exists>b \<in> set df. \<exists>d.
            baseline_severity b < linear_quantile (map baseline_severity df) 0.1
            \<and> s = perturbed_copy b d"
    using amplify_sources(2) [OF assms] by (fastforce simp add: pool_membership)
  show "\<forall>b \<in> set df. b \<in> set (high_risk_samples df)
            \<longleftrightarrow> linear_quantile (map baseline_severity df) 0.9 < baseline_severity b"
    by (simp add: pool_membership)
  show "\<forall>b \<in> set df. b \<in> set (low_risk_samples df)
            \<longleftrightarrow> baseline_severity b < linear_quantile (map baseline_severity df) 0.1"
    by (simp add: pool_membership)
qed

lemma ex_pair_amplified:
  "amplify_edge_cases ex_amp_draws ex_pair 1 =
     Inr (ex_pair @ [perturbed_copy (ex_patient\<lparr>baseline_severity := 100\<rparr>) (ex_amp_draws 0),
                     perturbed_copy (ex_patient\<lparr>baseline_severity := 0\<rparr>) (ex_amp_draws 1)])"
  by (simp add: amplify_edge_cases_def ex_counts high_risk_samples_def low_risk_samples_def linear_quantile_def
      synthetic_high_risk_def synthetic_low_risk_def synthetic_patient_def
      ex_pair_def ex_patient_def)

lemma ex_pair_high:
  "synthetic_high_risk ex_amp_draws ex_pair 1
     = [perturbed_copy (ex_patient\<lparr>baseline_severity := 100\<rparr>) (ex_amp_draws 0)]"
  by (simp add: synthetic_high_risk_def synthetic_patient_def ex_counts high_risk_samples_def linear_quantile_def ex_pair_def ex_patient_def)

theorem amplify_sources_strictly_extreme_witness:
  "amplify_edge_cases ex_amp_draws ex_pair 1 =
     Inr (ex_pair @ [perturbed_copy (ex_patient\<lparr>baseline_severity := 100\<rparr>) (ex_amp_draws 0),
                     perturbed_copy (ex_patient\<lparr>baseline_severity := 0\<rparr>) (ex_amp_draws 1)])
   \<and> (\<exists>b \<in> set ex_pair. \<exists>d.
          linear_quantile (map baseline_severity ex_pair) 0.9 < baseline_severity b
          \<and> perturbed_copy (ex_patient\<lparr>baseline_severity := 100\<rparr>) (ex_amp_draws 0)
              = perturbed_copy b d)"
proof -
  from amplify_sources_strictly_extreme [OF ex_pair_amplified]
  have "\<forall>s \<in> set (synthetic_high_risk ex_amp_draws ex_pair 1). \<exists>b \<in> set ex_pair. \<exists>d.
          linear_quantile (map baseline_severity ex_pair) 0.9 < baseline_severity b
          \<and> s = perturbed_copy b d"
    by blast
  then have "\<exists>b \<in> set ex_pair. \<exists>d.
          linear_quantile (map baseline_severity ex_pair) 0.9 < baseline_severity b
          \<and> perturbed_copy (ex_patient\<lparr>baseline_severity := 100\<rparr>) (ex_amp_draws 0)
              = perturbed_copy b d"
    by (rule bspec) (simp add: ex_pair_high)
  with ex_pair_amplified show ?thesis by (rule conjI)
qed

text \<open>
  Among eleven patients with severities 0, 10, ..., 100 the 90th percentile is 90 and
  the 10th is 10. The patients with exactly these severities are not in the pools, which
  hold the patients with severity 100 and 0 only.
\<close>

theorem boundary_patient_not_eligible_counterexample:
  "ex_patient\<lparr>baseline_severity := 90\<rparr> \<in> set ex_eleven
   \<and> baseline_severity (ex_patient\<lparr>baseline_severity := 90\<rparr>)
       = linear_quantile (map baseline_severity ex_eleven) 0.9
   \<and> ex_patient\<lparr>baseline_severity := 90\<rparr> \<notin> set (high_risk_samples ex_eleven)
   \<and> high_risk_samples ex_eleven = [ex_patient\<lparr>baseline_severity := 100\<rparr>]
   \<and> ex_patient\<lparr>baseline_severity := 10\<rparr> \<in> set ex_eleven
   \<and> baseline_severity (ex_patient\<lparr>baseline_severity := 10\<rparr>)
       = linear_quantile (map baseline_severity ex_eleven) 0.1
   \<and> low_risk_samples ex_eleven = [ex_patient\<lparr>baseline_severity := 0\<rparr>]"
  by (simp add: ex_eleven_def ex_patient_def high_risk_samples_def low_risk_samples_def
      linear_quantile_def)

subsection \<open>The cohort\<close>

lemma base_population_returns:
  "0 \<le> n \<Longrightarrow> generate_base_population rng n = Inr (map (\<lambda>i. base_patient i (rng i)) [0..<nat n])"
  by (simp add: generate_base_population_def)

lemma base_population_rows:
  assumes "generate_base_population rng n = Inr base_df"
  shows "length base_df = nat n"
    and "\<forall>p \<in> set base_df. within_declared_bounds p"
    and "\<forall>p \<in> set base_df. 0 \<le> baseline_severity p \<and> baseline_severity p \<le> 100"
proof -
  from assms have b: "base_df = map (\<lambda>i. base_patient i (rng i)) [0..<nat n]"
    by (simp add: generate_base_population_def split: if_splits)
  show "length base_df = nat n" by (simp add: b)
  show "\<forall>p \<in> set base_df. within_declared_bounds p"
    by (auto simp add: b base_patient_bounds)
  show "\<forall>p \<in> set base_df. 0 \<le> baseline_severity p \<and> baseline_severity p \<le> 100"
    using base_patient_severity by (auto simp add: b)
qed

lemma synthetic_severity:
  assumes "amplify_edge_cases rng df factor = Inr out"
    and "\<forall>p \<in> set df. 0 \<le> baseline_severity p \<and> baseline_severity p \<le> 100"
  shows "\<forall>p \<in> set out. 0 \<le> baseline_severity p \<and> baseline_severity p \<le> 100"
proof
  fix p assume "p \<in> set out"
  then consider "p \<in> set df" | "p \<in> set (synthetic_high_risk rng df factor)"
    | "p \<in> set (synthetic_low_risk rng df factor)"
    unfolding amplify_result(1) [OF assms(1)] by auto
  then show "0 \<le> baseline_severity p \<and> baseline_severity p \<le> 100"
  proof cases
    case 1
    with assms(2) show ?thesis by blast
  next
    case 2
    with amplify_sources(1) [OF assms(1)]
    obtain b d where "b \<in> set (high_risk_samples df)" "p = perturbed_copy b d" by blast
    with assms(2) show ?thesis by (simp add: perturbed_copy_keeps pool_membership)
  next
    case 3
    with amplify_sources(2) [OF assms(1)]
    obtain b d where "b \<in> set (low_risk_samples df)" "p = perturbed_copy b d" by blast
    with assms(2) show ?thesis by (simp add: perturbed_copy_keeps pool_membership)
  qed
qed

text \<open>
  Claim C6, as the code has it. Without amplification and for a size \<open>n \<ge> 0\<close>,
  \<^verbatim>\<open>generate_patient_cohort\<close> returns \<open>n\<close> rows, each with age in \<open>[30, 85]\<close>, BMI in
  \<open>[18, 50]\<close>, systolic pressure in \<open>[90, 180]\<close>, diastolic pressure in \<open>[60, 120]\<close>,
  glucose in \<open>[70, 180]\<close> and glycated hemoglobin in \<open>[4.5, 10]\<close>. Whenever it returns a
  table, amplified or not, every row has its baseline severity in \<open>[0, 100]\<close>, and the
  first \<open>n\<close> rows, the base population, are within the bounds above. The synthetic
  rows are perturbed after the clipping and are not clipped again.
\<close>

theorem cohort_severity_and_base_bounds:
  "(0 \<le> n \<and> \<not> amplify \<longrightarrow>
      (\<exists>rows. generate_patient_cohort base_rng amp_rng n amplify factor = Inr rows
          \<and> length rows = nat n \<and> (\<forall>p \<in> set rows. within_declared_bounds p)))
   \<and> (\<forall>rows. generate_patient_cohort base_rng amp_rng n amplify factor = Inr rows \<longrightarrow>
          (\<forall>p \<in> set rows. 0 \<le> baseline_severity p \<and> baseline_severity p \<le> 100)
          \<and> (\<forall>p \<in> set (take (nat n) rows). within_declared_bounds p))"
proof (intro conjI impI allI)
  assume "0 \<le> n \<and> \<not> amplify"
  then have "generate_patient_cohort base_rng amp_rng n amplify factor
               = Inr (map (\<lambda>i. base_patient i (base_rng i)) [0..<nat n])"
    by (simp add: generate_patient_cohort_def base_population_returns)
  then show "\<exists>rows. generate_patient_cohort base_rng amp_rng n amplify factor = Inr rows
          \<and> length rows = nat n \<and> (\<forall>p \<in> set rows. within_declared_bounds p)"
    by (auto simp add: base_patient_bounds)
next
  fix rows
  assume r: "generate_patient_cohort base_rng amp_rng n amplify factor = Inr rows"
  then obtain base_df where b: "generate_base_population base_rng n = Inr base_df"
    and c: "if amplify then amplify_edge_cases amp_rng base_df factor = Inr rows
            else rows = base_df"
    by (auto simp add: generate_patient_cohort_def split: sum.splits if_splits)
  note base = base_population_rows [OF b]
  show "\<forall>p \<in> set rows. 0 \<le> baseline_severity p \<and> baseline_severity p \<le> 100"
  proof (cases amplify)
    case True
    with c have "amplify_edge_cases amp_rng base_df factor = Inr rows" by simp
    then show ?thesis using base(3) by (rule synthetic_severity)
  next
    case False
    with c base(3) show ?thesis by simp
  qed
  show "\<forall>p \<in> set (take (nat n) rows). within_declared_bounds p"
  proof (cases amplify)
    case True
    with c have "amplify_edge_cases amp_rng base_df factor = Inr rows" by simp
    then have "rows = base_df @ (synthetic_high_risk amp_rng base_df factor
                                  @ synthetic_low_risk amp_rng base_df factor)"
      by (rule amplify_result(1))
    then have "take (nat n) rows = base_df" using base(1) by simp
    then show ?thesis using base(2) by simp
  next
    case False
    with c base(1) base(2) show ?thesis by simp
  qed
qed

lemma ex_cols_0:
  "ages_col (ex_base_draws 0) = 50" "bmi_col (ex_base_draws 0) = 21.2"
  "systolic_col (ex_base_draws 0) = 99" "diastolic_col (ex_base_draws 0) = 60"
  "glucose_col (ex_base_draws 0) = 81" "hba1c_col (ex_base_draws 0) = 5.05"
  "severity_col (ex_base_draws 0) = 10"
proof -
  show a: "ages_col (ex_base_draws 0) = 50"
    by (simp add: ages_col_def ex_base_draws_def np_clip_def astype_int_def)
  show b: "bmi_col (ex_base_draws 0) = 21.2"
    unfolding bmi_col_def a by (simp add: ex_base_draws_def np_clip_def)
  show s: "systolic_col (ex_base_draws 0) = 99"
    unfolding systolic_col_def a b by (simp add: ex_base_draws_def np_clip_def)
  show "diastolic_col (ex_base_draws 0) = 60"
    unfolding diastolic_col_def a b by (simp add: ex_base_draws_def np_clip_def)
  show g: "glucose_col (ex_base_draws 0) = 81"
    unfolding glucose_col_def b by (simp add: ex_base_draws_def np_clip_def)
  show h: "hba1c_col (ex_base_draws 0) = 5.05"
    unfolding hba1c_col_def g by (simp add: ex_base_draws_def np_clip_def)
  show "severity_col (ex_base_draws 0) = 10"
    unfolding severity_col_def b s g h by (simp add: np_clip_def)
qed

lemma ex_cols_1:
  "ages_col (ex_base_draws (Suc 0)) = 85" "bmi_col (ex_base_draws (Suc 0)) = 34"
  "systolic_col (ex_base_draws (Suc 0)) = 135" "diastolic_col (ex_base_draws (Suc 0)) = 85"
  "glucose_col (ex_base_draws (Suc 0)) = 125" "hba1c_col (ex_base_draws (Suc 0)) = 6.15"
  "severity_col (ex_base_draws (Suc 0)) = 45"
proof -
  show a: "ages_col (ex_base_draws (Suc 0)) = 85"
    by (simp add: ages_col_def ex_base_draws_def np_clip_def astype_int_def)
  show b: "bmi_col (ex_base_draws (Suc 0)) = 34"
    unfolding bmi_col_def a by (simp add: ex_base_draws_def np_clip_def)
  show s: "systolic_col (ex_base_draws (Suc 0)) = 135"
    unfolding systolic_col_def a b by (simp add: ex_base_draws_def np_clip_def)
  show "diastolic_col (ex_base_draws (Suc 0)) = 85"
    unfolding diastolic_col_def a b by (simp add: ex_base_draws_def np_clip_def)
  show g: "glucose_col (ex_base_draws (Suc 0)) = 125"
    unfolding glucose_col_def b by (simp add: ex_base_draws_def np_clip_def)
  show h: "hba1c_col (ex_base_draws (Suc 0)) = 6.15"
    unfolding hba1c_col_def g by (simp add: ex_base_draws_def np_clip_def)
  show "severity_col (ex_base_draws (Suc 0)) = 45"
    unfolding severity_col_def b s g h by (simp add: np_clip_def)
qed

lemma np_round_int: "np_round (of_int k) d = of_int k"
  by (simp add: np_round_def rint_def Let_def)

lemma ex_base_fields:
  "age (base_patient 0 (ex_base_draws 0)) = 50"
  "baseline_diastolic (base_patient 0 (ex_base_draws 0)) = 60"
  "baseline_severity (base_patient 0 (ex_base_draws 0)) = 10"
  "age (base_patient (Suc 0) (ex_base_draws (Suc 0))) = 85"
  "baseline_diastolic (base_patient (Suc 0) (ex_base_draws (Suc 0))) = 85"
  "baseline_severity (base_patient (Suc 0) (ex_base_draws (Suc 0))) = 45"
  using np_round_int [of 60] np_round_int [of 10] np_round_int [of 85] np_round_int [of 45]
  by (simp_all add: base_patient_def ex_cols_0 ex_cols_1)

lemma ex_base_df:
  "generate_base_population ex_base_draws 2
     = Inr [base_patient 0 (ex_base_draws 0), base_patient (Suc 0) (ex_base_draws (Suc 0))]"
  by (simp add: generate_base_population_def numeral_2_eq_2)

lemma ex_quantiles:
  "linear_quantile [10, 45] 0.9 = 41.5" "linear_quantile [10, 45] 0.1 = 13.5"
  by (simp_all add: linear_quantile_def)

lemma ex_cohort:
  "generate_patient_cohort ex_base_draws ex_amp_draws 2 True 1
     = Inr [base_patient 0 (ex_base_draws 0),
            base_patient (Suc 0) (ex_base_draws (Suc 0)),
            perturbed_copy (base_patient (Suc 0) (ex_base_draws (Suc 0))) (ex_amp_draws 0),
            perturbed_copy (base_patient 0 (ex_base_draws 0)) (ex_amp_draws 1)]"
  by (simp add: generate_patient_cohort_def ex_base_df amplify_edge_cases_def
      ex_counts
      high_risk_samples_def low_risk_samples_def ex_base_fields ex_quantiles
      synthetic_high_risk_def synthetic_low_risk_def synthetic_patient_def)

text \<open>
  A base population of two patients, amplified with factor 1. The base rows are within
  the bounds: ages 50 and 85, diastolic pressures 60 and 85. The synthetic copy of the
  second patient is 89 years old, and the copy of the first has a diastolic pressure
  of 58.
\<close>

theorem amplified_cohort_out_of_bounds_counterexample:
  "map_sum id (map (\<lambda>p. (age p, baseline_diastolic p)))
     (generate_patient_cohort ex_base_draws ex_amp_draws 2 True 1)
     = Inr [(50, 60), (85, 85), (89, 88), (47, 58)]"
  by (simp add: ex_cohort ex_base_fields perturbed_copy_def ex_amp_draws_def)

theorem cohort_severity_and_base_bounds_witness:
  "(\<exists>rows. generate_patient_cohort ex_base_draws ex_amp_draws 2 False 1 = Inr rows
        \<and> length rows = 2
        \<and> within_declared_bounds (rows ! 0) \<and> within_declared_bounds (rows ! 1))
   \<and> (\<exists>rows. generate_patient_cohort ex_base_draws ex_amp_draws 2 True 1 = Inr rows
        \<and> length rows = 4
        \<and> 0 \<le> baseline_severity (rows ! 3) \<and> baseline_severity (rows ! 3) \<le> 100
        \<and> within_declared_bounds (rows ! 1))"
proof (rule conjI)
  from cohort_severity_and_base_bounds [of 2 False ex_base_draws ex_amp_draws 1]
  obtain rows where r: "generate_patient_cohort ex_base_draws ex_amp_draws 2 False 1 = Inr rows"
    and l: "length rows = 2" and b: "\<forall>p \<in> set rows. within_declared_bounds p"
    by auto
  from l b have "within_declared_bounds (rows ! 0)" "within_declared_bounds (rows ! 1)"
    by simp_all
  with r l show "\<exists>rows. generate_patient_cohort ex_base_draws ex_amp_draws 2 False 1 = Inr rows
        \<and> length rows = 2
        \<and> within_declared_bounds (rows ! 0) \<and> within_declared_bounds (rows ! 1)"
    by blast
next
  define rows where "rows = [base_patient 0 (ex_base_draws 0),
            base_patient (Suc 0) (ex_base_draws (Suc 0)),
            perturbed_copy (base_patient (Suc 0) (ex_base_draws (Suc 0))) (ex_amp_draws 0),
            perturbed_copy (base_patient 0 (ex_base_draws 0)) (ex_amp_draws 1)]"
  have r: "generate_patient_cohort ex_base_draws ex_amp_draws 2 True 1 = Inr rows"
    unfolding rows_def by (rule ex_cohort)
  have l: "length rows = 4" by (simp add: rows_def)
  from cohort_severity_and_base_bounds [of 2 True ex_base_draws ex_amp_draws 1] r
  have s: "\<forall>p \<in> set rows. 0 \<le> baseline_severity p \<and> baseline_severity p \<le> 100"
    and b: "\<forall>p \<in> set (take (nat 2) rows). within_declared_bounds p"
    by blast+
  from s l have "0 \<le> baseline_severity (rows ! 3) \<and> baseline_severity (rows ! 3) \<le> 100"
    by simp
  moreover have "rows ! 1 \<in> set (take (nat 2) rows)" by (simp add: rows_def)
  with b have "within_declared_bounds (rows ! 1)" by blast
  ultimately show "\<exists>rows. generate_patient_cohort ex_base_draws ex_amp_draws 2 True 1 = Inr rows
        \<and> length rows = 4
        \<and> 0 \<le> baseline_severity (rows ! 3) \<and> baseline_severity (rows ! 3) \<le> 100
        \<and> within_declared_bounds (rows ! 1)"
    using r l by blast
qed

section \<open>Properties of the analyzer\<close>

subsection \<open>Risk stratification\<close>

lemma pd_cut_risk:
  "pd_cut risk_bins risk_labels s =
     (if 0 < s \<and> s \<le> 30 then Some ''Low''
      else if 30 < s \<and> s \<le> 50 then Some ''Moderate''
      else if 50 < s \<and> s \<le> 70 then Some ''High''
      else if 70 < s \<and> s \<le> 100 then Some ''Very High''
      else None)"
  by (simp add: risk_bins_def risk_labels_def)

lemma pd_cut_in_band: "pd_cut risk_bins risk_labels s = Some c \<longleftrightarrow> in_risk_band c s"
  by (auto simp add: pd_cut_risk in_risk_band_def)

lemma filter_zip_map:
  "map fst (filter (\<lambda>(r, c). c = k) (zip xs (map f xs))) = filter (\<lambda>r. f r = k) xs"
  by (induction xs) simp_all

lemma category_data_cut:
  "category_data
     (df\<lparr>risk_category :=
           Some (map (\<lambda>r. pd_cut risk_bins risk_labels (r_baseline_severity r)) (rows df))\<rparr>) c
     = filter (\<lambda>r. in_risk_band c (r_baseline_severity r)) (rows df)"
  by (simp add: category_data_def filter_zip_map pd_cut_in_band)

lemma category_data_stratified:
  "category_data (snd (risk_stratification_analysis df)) c
     = filter (\<lambda>r. in_risk_band c (r_baseline_severity r)) (rows df)"
  by (simp add: risk_stratification_analysis_def Let_def category_data_cut cong: if_cong)

lemma risk_analysis_bands:
  "fst (risk_stratification_analysis df)
     = concat (map (\<lambda>c. if filter (\<lambda>r. in_risk_band c (r_baseline_severity r)) (rows df) \<noteq> []
                          then [(c, risk_row_of
                                      (filter (\<lambda>r. in_risk_band c (r_baseline_severity r)) (rows df)))]
                          else [])
                 risk_labels)"
  by (simp add: risk_stratification_analysis_def Let_def category_data_cut cong: if_cong)

lemma sum_list_upper:
  fixes xs :: "real list"
  assumes "\<forall>x \<in> set xs. x \<le> hi"
  shows "sum_list xs \<le> real (length xs) * hi"
  using assms by (induction xs) (auto simp add: algebra_simps)

lemma sum_list_lower:
  fixes xs :: "real list"
  assumes "\<forall>x \<in> set xs. lo < x" and "xs \<noteq> []"
  shows "real (length xs) * lo < sum_list xs"
  using assms
proof (induction xs)
  case Nil
  then show ?case by simp
next
  case (Cons x xs)
  show ?case
  proof (cases "xs = []")
    case True
    with Cons.prems show ?thesis by simp
  next
    case False
    with Cons have "real (length xs) * lo < sum_list xs" by simp
    moreover have "lo < x" using Cons.prems by simp
    ultimately show ?thesis by (simp add: algebra_simps)
  qed
qed

lemma np_mean_between:
  assumes "xs \<noteq> []" and "\<forall>x \<in> set xs. lo < x \<and> x \<le> hi"
  shows "lo < np_mean xs \<and> np_mean xs \<le> hi"
proof -
  have n: "0 < real (length xs)" using assms(1) by simp
  have "real (length xs) * lo < sum_list xs" using assms by (intro sum_list_lower) auto
  moreover have "sum_list xs \<le> real (length xs) * hi" using assms by (intro sum_list_upper) auto
  ultimately show ?thesis using n by (simp add: np_mean_def field_simps)
qed

lemma in_risk_band_mean:
  assumes "xs \<noteq> []" and "\<forall>x \<in> set xs. in_risk_band c x"
  shows "in_risk_band c (np_mean xs)"
proof -
  have b: "(\<forall>x \<in> set xs. lo < x \<and> x \<le> hi) \<Longrightarrow> lo < np_mean xs \<and> np_mean xs \<le> hi" for lo hi
    using np_mean_between [OF assms(1)] by blast
  from assms(1) obtain x where x: "x \<in> set xs" by (cases xs) auto
  with assms(2) have "in_risk_band c x" by blast
  then consider "c = ''Low''" | "c = ''Moderate''" | "c = ''High''" | "c = ''Very High''"
    by (auto simp add: in_risk_band_def)
  then show ?thesis
  proof cases
    case 1
    with assms(2) have "\<forall>x \<in> set xs. 0 < x \<and> x \<le> 30" by (simp add: in_risk_band_def)
    from b [OF this] 1 show ?thesis by (simp add: in_risk_band_def)
  next
    case 2
    with assms(2) have "\<forall>x \<in> set xs. 30 < x \<and> x \<le> 50" by (simp add: in_risk_band_def)
    from b [OF this] 2 show ?thesis by (simp add: in_risk_band_def)
  next
    case 3
    with assms(2) have "\<forall>x \<in> set xs. 50 < x \<and> x \<le> 70" by (simp add: in_risk_band_def)
    from b [OF this] 3 show ?thesis by (simp add: in_risk_band_def)
  next
    case 4
    with assms(2) have "\<forall>x \<in> set xs. 70 < x \<and> x \<le> 100" by (simp add: in_risk_band_def)
    from b [OF this] 4 show ?thesis by (simp add: in_risk_band_def)
  qed
qed

lemma in_risk_band_unique:
  assumes "0 < s" and "s \<le> 100"
  shows "in_risk_band c s \<longleftrightarrow>
     c = (if s \<le> 30 then ''Low'' else if s \<le> 50 then ''Moderate''
          else if s \<le> 70 then ''High'' else ''Very High'')"
  using assms unfolding in_risk_band_def by (simp add: not_le)

lemma in_risk_band_ex1: "0 < s \<and> s \<le> 100 \<longrightarrow> (\<exists>!c. in_risk_band c s)"
  by (simp add: in_risk_band_unique)

lemma risk_analysis_entries:
  assumes "(c, row) \<in> set (fst (risk_stratification_analysis df))"
  shows "c \<in> set risk_labels"
    and "category_data (snd (risk_stratification_analysis df)) c \<noteq> []"
    and "row = risk_row_of (category_data (snd (risk_stratification_analysis df)) c)"
  using assms
  by (auto simp add: risk_stratification_analysis_def Let_def split: if_splits)

text \<open>
  Claim C1, as the code has it. \<^verbatim>\<open>risk_stratification_analysis\<close> cuts baseline
  severity into bins that are closed on the right: a row with positive severity \<open>s\<close> is
  in the band \<open>c\<close> exactly when \<open>s\<close> lies in the interval of \<open>c\<close>, which is \<open>(0, 30]\<close> for
  Low, \<open>(30, 50]\<close> for Moderate, \<open>(50, 70]\<close> for High and \<open>(70, 100]\<close> for Very High. So
  every severity \<open>0 < s \<le> 100\<close> is in exactly one band, and the values 30, 50, 70 and
  100 are in Low, Moderate, High and Very High. Every band of the returned analysis has
  at least one patient, and its mean baseline severity lies in the interval of the
  band.
\<close>

theorem risk_bands_right_closed:
  "(\<forall>r \<in> set (rows df). 0 < r_baseline_severity r \<longrightarrow>
      (\<forall>c. r \<in> set (category_data (snd (risk_stratification_analysis df)) c)
             \<longleftrightarrow> in_risk_band c (r_baseline_severity r)))
   \<and> (\<forall>s. 0 < s \<and> s \<le> 100 \<longrightarrow> (\<exists>!c. in_risk_band c s))
   \<and> in_risk_band ''Low'' 30 \<and> in_risk_band ''Moderate'' 50
   \<and> in_risk_band ''High'' 70 \<and> in_risk_band ''Very High'' 100
   \<and> (\<forall>(c, row) \<in> set (fst (risk_stratification_analysis df)).
         0 < n_patients row \<and> in_risk_band c (mean_baseline_severity row))"
proof (intro conjI)
  show "\<forall>r \<in> set (rows df). 0 < r_baseline_severity r \<longrightarrow>
      (\<forall>c. r \<in> set (category_data (snd (risk_stratification_analysis df)) c)
             \<longleftrightarrow> in_risk_band c (r_baseline_severity r))"
    by (simp add: category_data_stratified)
  show "\<forall>s. 0 < s \<and> s \<le> 100 \<longrightarrow> (\<exists>!c. in_risk_band c s)"
    using in_risk_band_ex1 by blast
  show "in_risk_band ''Low'' 30" "in_risk_band ''Moderate'' 50"
    "in_risk_band ''High'' 70" "in_risk_band ''Very High'' 100"
    by (simp_all add: in_risk_band_def)
  show "\<forall>(c, row) \<in> set (fst (risk_stratification_analysis df)).
         0 < n_patients row \<and> in_risk_band c (mean_baseline_severity row)"
  proof (intro ballI, clarify)
    fix c row
    assume m: "(c, row) \<in> set (fst (risk_stratification_analysis df))"
    define cd where "cd = category_data (snd (risk_stratification_analysis df)) c"
    from risk_analysis_entries(2,3) [OF m]
    have ne: "cd \<noteq> []" and row: "row = risk_row_of cd" by (simp_all add: cd_def)
    have all: "\<forall>x \<in> set (map r_baseline_severity cd). in_risk_band c x"
      by (simp add: cd_def category_data_stratified)
    have ne': "map r_baseline_severity cd \<noteq> []" using ne by simp
    have "in_risk_band c (np_mean (map r_baseline_severity cd))"
      using in_risk_band_mean [of "map r_baseline_severity cd" c, OF ne' all] .
    then show "0 < n_patients row \<and> in_risk_band c (mean_baseline_severity row)"
      using ne by (simp add: row risk_row_of_def)
  qed
qed

lemma ex_boundary_analysis:
  "fst (risk_stratification_analysis ex_boundary_df)
     = [(''Low'', risk_row_of [ex_outcome ''Standard Care'' 30 0.5])]"
  by (simp add: risk_analysis_bands ex_boundary_df_def in_risk_band_def ex_outcome_def
      risk_labels_def)

theorem risk_bands_right_closed_witness:
  "ex_outcome ''Standard Care'' 30 0.5 \<in> set (rows ex_boundary_df)
   \<and> ex_outcome ''Standard Care'' 30 0.5
        \<in> set (category_data (snd (risk_stratification_analysis ex_boundary_df)) ''Low'')
   \<and> (''Low'', risk_row_of [ex_outcome ''Standard Care'' 30 0.5])
        \<in> set (fst (risk_stratification_analysis ex_boundary_df))
   \<and> in_risk_band ''Low'' (mean_baseline_severity (risk_row_of [ex_outcome ''Standard Care'' 30 0.5]))"
proof -
  have r: "ex_outcome ''Standard Care'' 30 0.5 \<in> set (rows ex_boundary_df)"
    by (simp add: ex_boundary_df_def)
  have s: "r_baseline_severity (ex_outcome ''Standard Care'' 30 0.5) = 30"
    by (simp add: ex_outcome_def)
  have m: "(''Low'', risk_row_of [ex_outcome ''Standard Care'' 30 0.5])
             \<in> set (fst (risk_stratification_analysis ex_boundary_df))"
    by (simp add: ex_boundary_analysis)
  note t = risk_bands_right_closed [of ex_boundary_df]
  from t r s have "ex_outcome ''Standard Care'' 30 0.5
        \<in> set (category_data (snd (risk_stratification_analysis ex_boundary_df)) ''Low'')"
    by simp
  moreover from t m
  have "in_risk_band ''Low'' (mean_baseline_severity (risk_row_of [ex_outcome ''Standard Care'' 30 0.5]))"
    by blast
  ultimately show ?thesis using r m by simp
qed

text \<open>
  A table whose only row has baseline severity 30: the analysis has the single band
  Low, with one patient and mean baseline severity 30.
\<close>

theorem severity_30_in_low_band_counterexample:
  "map (\<lambda>(c, row). (c, n_patients row, mean_baseline_severity row))
     (fst (risk_stratification_analysis ex_boundary_df)) = [(''Low'', 1, 30)]"
  by (simp add: ex_boundary_analysis risk_row_of_def np_mean_def ex_outcome_def)

subsection \<open>Treatment comparison\<close>

lemma is_argsort_stable: "is_argsort stable_argsort"
  unfolding is_argsort_def stable_argsort_def
  by (simp del: mset_upt)

lemma key_less_simps:
  "key_less (Some x) (Some y) \<longleftrightarrow> x < y"
  "key_less (Some x) None"
  "\<not> key_less None b"
  by (simp_all add: key_less_def)

lemma cmp_merge_lanes:
  "cmp_merge (0, Suc 0) (p # q # r) = (if key_less (fst q) (fst p) then q # p # r else p # q # r)"
  "cmp_merge (Suc 0, 2) (o1 # p # q # r) = (if key_less (fst q) (fst p) then o1 # q # p # r else o1 # p # q # r)"
  "cmp_merge (2, 3) [o1, o2, p, q] = (if key_less (fst q) (fst p) then [o1, o2, q, p] else [o1, o2, p, q])"
  "cmp_merge (0, 3) [p, o1, o2, q] = (if key_less (fst q) (fst p) then [q, o1, o2, p] else [p, o1, o2, q])"
  by (simp_all add: cmp_merge_def eval_nat_numeral)

lemma upt_small:
  "[0..<Suc 0] = [0]" "[0..<Suc (Suc 0)] = [0, Suc 0]"
  "[0..<Suc (Suc (Suc 0))] = [0, Suc 0, Suc (Suc 0)]"
  "[0..<Suc (Suc (Suc (Suc 0)))] = [0, Suc 0, Suc (Suc 0), Suc (Suc (Suc 0))]"
  by (simp_all add: upt_rec)

lemma replicate_small:
  "replicate 3 x = [x, x, x]" "replicate 2 x = [x, x]"
  by (simp_all add: eval_nat_numeral)

lemma argsort_n_1: "argsort_n [a] = [0]"
  by (simp add: argsort_n_def sort_ymm_64bit_def upt_small replicate_small cmp_merge_lanes key_less_simps)

lemma argsort_n_2: "argsort_n [a, b] = (if b < a then [1, 0] else [0, 1])"
  by (simp add: argsort_n_def sort_ymm_64bit_def upt_small replicate_small cmp_merge_lanes key_less_simps)

lemma argsort_n_3: "argsort_n [a, b, c] = stable_argsort [a, b, c]"
  by (simp add: argsort_n_def sort_ymm_64bit_def upt_small replicate_small cmp_merge_lanes key_less_simps
      stable_argsort_def)

lemma argsort_n_0: "argsort_n [] = []"
  by (simp add: argsort_n_def)

lemma argsort_n_4_mset:
  "mset (argsort_n [a, b, c, d]) = mset [0, Suc 0, Suc (Suc 0), Suc (Suc (Suc 0))]"
  by (simp add: argsort_n_def sort_ymm_64bit_def upt_small cmp_merge_lanes key_less_simps)

lemma argsort_n_4_sorted:
  "sorted (map (\<lambda>j. [a, b, c, d] ! j) (argsort_n [a, b, c, d]))"
  by (simp add: argsort_n_def sort_ymm_64bit_def upt_small cmp_merge_lanes key_less_simps)

lemma length_le_4_cases:
  assumes "length ks \<le> 4"
  obtains "ks = []" | a where "ks = [a]" | a b where "ks = [a, b]"
    | a b c where "ks = [a, b, c]" | a b c d where "ks = [a, b, c, d]"
proof -
  from assms consider "length ks = 0" | "length ks = 1" | "length ks = 2" | "length ks = 3"
    | "length ks = 4" by linarith
  then show ?thesis
  proof cases
    case 1 then show ?thesis using that(1) by simp
  next
    case 2 then show ?thesis using that(2) by (auto simp add: length_Suc_conv)
  next
    case 3 then show ?thesis using that(3) by (auto simp add: length_Suc_conv numeral_2_eq_2)
  next
    case 4 then show ?thesis using that(4) by (auto simp add: length_Suc_conv numeral_3_eq_3)
  next
    case 5 then show ?thesis using that(5)
      by (auto simp add: length_Suc_conv eval_nat_numeral)
  qed
qed

lemma simd_argsort_three_stable:
  assumes "length ks \<le> 3"
  shows "simd_argsort ks = stable_argsort ks"
proof -
  from assms have "length ks \<le> 4" by simp
  then show ?thesis
  proof (cases rule: length_le_4_cases)
    case 1 then show ?thesis by (simp add: simd_argsort_def argsort_n_0 stable_argsort_def)
  next
    case 2 then show ?thesis by (simp add: simd_argsort_def argsort_n_1 stable_argsort_def)
  next
    case 3 then show ?thesis
      by (simp add: simd_argsort_def argsort_n_2 stable_argsort_def upt_small)
  next
    case 4 then show ?thesis by (simp add: simd_argsort_def argsort_n_3)
  next
    case 5 with assms show ?thesis by simp
  qed
qed

text \<open>
  Both routines return a sorting permutation, so the statement about the sorted table
  holds for them.
\<close>

lemma is_argsort_simd: "is_argsort simd_argsort"
  unfolding is_argsort_def
proof (intro allI)
  fix ks :: "real list"
  have stable: "mset (stable_argsort ks) = mset [0..<length ks]
      \<and> sorted (map (\<lambda>j. ks ! j) (stable_argsort ks))"
    using is_argsort_stable unfolding is_argsort_def by blast
  consider "length ks \<le> 3" | a b c d where "ks = [a, b, c, d]" | "4 < length ks"
  proof (cases "length ks \<le> 4")
    case True
    then show ?thesis
      by (cases rule: length_le_4_cases) (use that in simp_all)
  next
    case False
    then show ?thesis using that(3) by simp
  qed
  then show "mset (simd_argsort ks) = mset [0..<length ks]
      \<and> sorted (map (\<lambda>j. ks ! j) (simd_argsort ks))"
  proof cases
    case 1
    then show ?thesis using stable by (simp only: simd_argsort_three_stable)
  next
    case 2
    have "length ks \<le> 4" "[0..<length ks] = [0, Suc 0, Suc (Suc 0), Suc (Suc (Suc 0))]"
      by (simp_all add: 2 upt_small)
    then show ?thesis
      using argsort_n_4_mset [of a b c d] argsort_n_4_sorted [of a b c d]
      by (simp only: simd_argsort_def 2 if_True)
  next
    case 3
    then show ?thesis using stable by (simp add: simd_argsort_def)
  qed
qed

lemma sort_values_desc_eq:
  assumes "is_argsort argsort"
  shows "sort_values_desc argsort by_col xs
           = rev (map (\<lambda>j. rev xs ! j) (argsort (rev (map by_col xs))))"
    and "map by_col (sort_values_desc argsort by_col xs)
           = rev (map (\<lambda>j. rev (map by_col xs) ! j) (argsort (rev (map by_col xs))))"
proof -
  define n where "n = length xs"
  define perm where "perm = argsort (rev (map by_col xs))"
  have "mset perm = mset [0..<length (rev (map by_col xs))]"
    using assms unfolding is_argsort_def perm_def by blast
  then have "set perm = set [0..<n]"
    unfolding n_def by (metis mset_eq_setD length_rev length_map)
  then have lt: "j < n" if "j \<in> set perm" for j using that by simp
  have idx: "xs ! (rev [0..<n] ! j) = rev xs ! j" if "j < n" for j
    using that by (simp add: rev_nth n_def)
  have by_idx: "by_col (rev xs ! j) = rev (map by_col xs) ! j" if "j < n" for j
    using that by (simp add: rev_map n_def)
  have "sort_values_desc argsort by_col xs = rev (map (\<lambda>j. xs ! (rev [0..<n] ! j)) perm)"
    by (simp add: sort_values_desc_def Let_def rev_map perm_def n_def)
  also have "map (\<lambda>j. xs ! (rev [0..<n] ! j)) perm = map (\<lambda>j. rev xs ! j) perm"
    using lt idx by (intro map_cong) simp_all
  finally show 1: "sort_values_desc argsort by_col xs
           = rev (map (\<lambda>j. rev xs ! j) (argsort (rev (map by_col xs))))"
    by (simp add: perm_def)
  have "map by_col (rev (map (\<lambda>j. rev xs ! j) perm)) = rev (map (\<lambda>j. by_col (rev xs ! j)) perm)"
    by (simp add: rev_map)
  also have "map (\<lambda>j. by_col (rev xs ! j)) perm = map (\<lambda>j. rev (map by_col xs) ! j) perm"
    using lt by_idx by (intro map_cong) simp_all
  finally show "map by_col (sort_values_desc argsort by_col xs)
           = rev (map (\<lambda>j. rev (map by_col xs) ! j) (argsort (rev (map by_col xs))))"
    unfolding 1 by (simp add: perm_def)
qed

lemma sort_values_desc_sorted:
  assumes "is_argsort argsort"
  shows "sorted (rev (map by_col (sort_values_desc argsort by_col xs)))"
  unfolding sort_values_desc_eq(2) [OF assms] rev_rev_ident
  using assms unfolding is_argsort_def by blast

lemma sort_values_desc_mset:
  assumes "is_argsort argsort"
  shows "mset (sort_values_desc argsort by_col xs) = mset xs"
proof -
  have "mset (argsort (rev (map by_col xs))) = mset [0..<length (rev xs)]"
    using assms unfolding is_argsort_def by (metis length_rev length_map)
  then have "mset (map (\<lambda>j. rev xs ! j) (argsort (rev (map by_col xs))))
               = mset (map (\<lambda>j. rev xs ! j) [0..<length (rev xs)])"
    by (metis mset_map)
  also have "\<dots> = mset (rev xs)" by (simp only: map_nth)
  finally show ?thesis unfolding sort_values_desc_eq(1) [OF assms] by simp
qed

lemma unique_empty: "unique xs = [] \<longleftrightarrow> xs = []"
  by (simp add: unique_def)

text \<open>
  Claim C7, as the code has it. Whatever sorting routine the library uses for
  \<^verbatim>\<open>sort_values\<close>, for a table with at least one row
  \<^verbatim>\<open>compare_treatments_analysis\<close> returns a table that is in descending order of mean
  success rate (each row's rate is at least that of the next row) and that consists of
  exactly the rows computed for the treatments of the input. The order among rows of
  equal mean success rate is the one the routine leaves; the code does not ask for a
  stable sort.
\<close>

theorem compare_treatments_sorted_descending:
  assumes "is_argsort argsort" and "rows df \<noteq> []"
  shows "\<exists>out. fst (compare_treatments_analysis argsort df) = Inr out
       \<and> (\<forall>i. Suc i < length out \<longrightarrow>
              Mean_Success_Rate (out ! Suc i) \<le> Mean_Success_Rate (out ! i))
       \<and> mset out = mset (map (comparison_of df) (unique (map r_treatment (rows df))))"
proof -
  define comparison where "comparison = map (comparison_of df) (unique (map r_treatment (rows df)))"
  define out where "out = sort_values_desc argsort Mean_Success_Rate comparison"
  have "comparison \<noteq> []" using assms(2) by (simp add: comparison_def unique_empty)
  then have out: "fst (compare_treatments_analysis argsort df) = Inr out"
    by (simp add: compare_treatments_analysis_def Let_def out_def comparison_def)
  have "sorted (rev (map Mean_Success_Rate out))"
    unfolding out_def by (rule sort_values_desc_sorted [OF assms(1)])
  then have "\<forall>i. Suc i < length (map Mean_Success_Rate out) \<longrightarrow>
               map Mean_Success_Rate out ! Suc i \<le> map Mean_Success_Rate out ! i"
    by (simp only: sorted_rev_iff_nth_Suc)
  then have adj: "\<forall>i. Suc i < length out \<longrightarrow>
               Mean_Success_Rate (out ! Suc i) \<le> Mean_Success_Rate (out ! i)"
    by simp
  have "mset out = mset comparison"
    unfolding out_def by (rule sort_values_desc_mset [OF assms(1)])
  with out adj show ?thesis unfolding comparison_def by blast
qed

lemma ex_tie_unique:
  "unique (map r_treatment (rows ex_tie_df)) = [''Standard Care'', ''Intensive Therapy'']"
  by (simp add: ex_tie_df_def ex_outcome_def unique_def)

lemma ex_tie_means:
  "Mean_Success_Rate (comparison_of ex_tie_df ''Standard Care'') = 1 / 2"
  "Mean_Success_Rate (comparison_of ex_tie_df ''Intensive Therapy'') = 1 / 2"
  by (simp_all add: comparison_of_def treatment_data_def ex_tie_df_def ex_outcome_def np_mean_def)

lemma ex_tie_kept:
  "fst (compare_treatments_analysis simd_argsort ex_tie_df)
     = Inr [comparison_of ex_tie_df ''Standard Care'',
            comparison_of ex_tie_df ''Intensive Therapy'']"
  "fst (compare_treatments_analysis stable_argsort ex_tie_df)
     = Inr [comparison_of ex_tie_df ''Standard Care'',
            comparison_of ex_tie_df ''Intensive Therapy'']"
  by (simp_all add: compare_treatments_analysis_def Let_def ex_tie_unique sort_values_desc_def
      ex_tie_means simd_argsort_def argsort_n_2 stable_argsort_def numeral_2_eq_2)

lemma ex_four_unique:
  "unique (map r_treatment (rows ex_four_df))
     = [''Standard Care'', ''Intensive Therapy'', ''Experimental Treatment'',
        ''Combination Therapy'']"
  by (simp add: ex_four_df_def ex_outcome_def unique_def)

lemma ex_four_means:
  "Mean_Success_Rate (comparison_of ex_four_df ''Standard Care'') = 1 / 2"
  "Mean_Success_Rate (comparison_of ex_four_df ''Intensive Therapy'') = 2 / 5"
  "Mean_Success_Rate (comparison_of ex_four_df ''Experimental Treatment'') = 7 / 10"
  "Mean_Success_Rate (comparison_of ex_four_df ''Combination Therapy'') = 7 / 10"
  by (simp_all add: comparison_of_def treatment_data_def ex_four_df_def ex_outcome_def
      np_mean_def)

lemma ex_four_argsort:
  "simd_argsort [7 / 10, 7 / 10, 2 / 5, 1 / 2] = [2, 3, 1, 0]"
  "stable_argsort [7 / 10, 7 / 10, 2 / 5, 1 / 2] = [2, 3, 0, 1]"
  by (simp_all add: simd_argsort_def argsort_n_def sort_ymm_64bit_def upt_small
      cmp_merge_lanes key_less_simps stable_argsort_def)

lemma ex_four_sorted:
  "fst (compare_treatments_analysis simd_argsort ex_four_df)
     = Inr [comparison_of ex_four_df ''Combination Therapy'',
            comparison_of ex_four_df ''Experimental Treatment'',
            comparison_of ex_four_df ''Standard Care'',
            comparison_of ex_four_df ''Intensive Therapy'']"
  by (simp add: compare_treatments_analysis_def Let_def ex_four_unique sort_values_desc_def
      ex_four_means ex_four_argsort upt_small)

lemma ex_four_sorted_stable:
  "fst (compare_treatments_analysis stable_argsort ex_four_df)
     = Inr [comparison_of ex_four_df ''Experimental Treatment'',
            comparison_of ex_four_df ''Combination Therapy'',
            comparison_of ex_four_df ''Standard Care'',
            comparison_of ex_four_df ''Intensive Therapy'']"
  by (simp add: compare_treatments_analysis_def Let_def ex_four_unique sort_values_desc_def
      ex_four_means ex_four_argsort upt_small)

text \<open>
  Four treatments with mean success rates 0.5, 0.4, 0.7 and 0.7 in the order of the
  input, Experimental Treatment before Combination Therapy. pandas hands the reversed
  keys 0.7, 0.7, 0.4, 0.5 to the sorting routine; the vectorised routine exchanges the
  lanes 0-3 and 1-2 and then 0-1, which leaves the two equal keys in the opposite
  order, and the returned table has Combination Therapy before Experimental Treatment.
\<close>

theorem four_treatments_tie_reordered_counterexample:
  "map (\<lambda>r. (Treatment r, Mean_Success_Rate r))
       (map (comparison_of ex_four_df) (unique (map r_treatment (rows ex_four_df))))
     = [(''Standard Care'', 1 / 2), (''Intensive Therapy'', 2 / 5),
        (''Experimental Treatment'', 7 / 10), (''Combination Therapy'', 7 / 10)]
   \<and> map_sum id (map (\<lambda>r. (Treatment r, Mean_Success_Rate r)))
         (fst (compare_treatments_analysis simd_argsort ex_four_df))
       = Inr [(''Combination Therapy'', 7 / 10), (''Experimental Treatment'', 7 / 10),
              (''Standard Care'', 1 / 2), (''Intensive Therapy'', 2 / 5)]"
  by (simp add: ex_four_unique ex_four_sorted ex_four_means)
     (simp add: comparison_of_def)

lemma ex_rank_unique:
  "unique (map r_treatment (rows ex_rank_df)) = [''Standard Care'', ''Intensive Therapy'']"
  by (simp add: ex_rank_df_def ex_outcome_def unique_def)

lemma ex_rank_means:
  "Mean_Success_Rate (comparison_of ex_rank_df ''Standard Care'') = 3 / 5"
  "Mean_Success_Rate (comparison_of ex_rank_df ''Intensive Therapy'') = 7 / 10"
  by (simp_all add: comparison_of_def treatment_data_def ex_rank_df_def ex_outcome_def np_mean_def)

lemma ex_rank_sorted:
  "fst (compare_treatments_analysis stable_argsort ex_rank_df)
     = Inr [comparison_of ex_rank_df ''Intensive Therapy'',
            comparison_of ex_rank_df ''Standard Care'']"
  by (simp add: compare_treatments_analysis_def Let_def ex_rank_unique sort_values_desc_def
      ex_rank_means stable_argsort_def numeral_2_eq_2)

theorem compare_treatments_sorted_descending_witness:
  "is_argsort stable_argsort \<and> rows ex_rank_df \<noteq> []
   \<and> (\<exists>out. fst (compare_treatments_analysis stable_argsort ex_rank_df) = Inr out
          \<and> out = [comparison_of ex_rank_df ''Intensive Therapy'',
                    comparison_of ex_rank_df ''Standard Care'']
          \<and> Mean_Success_Rate (out ! Suc 0) \<le> Mean_Success_Rate (out ! 0))"
proof -
  have ne: "rows ex_rank_df \<noteq> []" by (simp add: ex_rank_df_def)
  from compare_treatments_sorted_descending [OF is_argsort_stable ne]
  obtain out where out: "fst (compare_treatments_analysis stable_argsort ex_rank_df) = Inr out"
    and adj: "\<forall>i. Suc i < length out \<longrightarrow>
                Mean_Success_Rate (out ! Suc i) \<le> Mean_Success_Rate (out ! i)"
    by blast
  from out ex_rank_sorted
  have e: "out = [comparison_of ex_rank_df ''Intensive Therapy'',
                  comparison_of ex_rank_df ''Standard Care'']"
    by simp
  then have "Suc 0 < length out" by simp
  with adj have "Mean_Success_Rate (out ! Suc 0) \<le> Mean_Success_Rate (out ! 0)" by blast
  with is_argsort_stable ne out e show ?thesis by blast
qed

lemma insort_key_map:
  "insort_key f (g x) (map g ys) = map g (insort_key (\<lambda>y. f (g y)) x ys)"
  by (induction ys) simp_all

lemma sort_key_map: "sort_key f (map g ys) = map g (sort_key (\<lambda>y. f (g y)) ys)"
  by (induction ys) (simp_all add: insort_key_map)

lemma insort_key_cong_set:
  assumes "f x = f' x" and "\<forall>y \<in> set ys. f y = f' y"
  shows "insort_key f x ys = insort_key f' x ys"
  using assms by (induction ys) simp_all

lemma sort_key_cong_set:
  assumes "\<forall>y \<in> set ys. f y = f' y"
  shows "sort_key f ys = sort_key f' ys"
  using assms
proof (induction ys)
  case Nil
  show ?case by simp
next
  case (Cons y ys)
  then have ih: "sort_key f ys = sort_key f' ys" by simp
  have "insort_key f y (sort_key f' ys) = insort_key f' y (sort_key f' ys)"
    using Cons.prems by (intro insort_key_cong_set) simp_all
  then show ?case by (simp add: ih)
qed

lemma sort_values_desc_stable:
  "sort_values_desc stable_argsort by_col xs = rev (sort_key by_col (rev xs))"
proof -
  have "sort_key (\<lambda>j. rev (map by_col xs) ! j) [0..<length xs]
          = sort_key (\<lambda>j. by_col (rev xs ! j)) [0..<length xs]"
    by (rule sort_key_cong_set) (simp add: rev_map)
  then have "map (\<lambda>j. rev xs ! j) (stable_argsort (rev (map by_col xs)))
          = sort_key by_col (map (\<lambda>j. rev xs ! j) [0..<length (rev xs)])"
    by (simp add: stable_argsort_def sort_key_map)
  also have "\<dots> = sort_key by_col (rev xs)" by (simp only: map_nth)
  finally show ?thesis
    unfolding sort_values_desc_eq(1) [OF is_argsort_stable] by simp
qed

text \<open>
  With a stable routine, rows of equal key keep the order they had before sorting.
\<close>

lemma stable_sort_keeps_ties:
  "filter (\<lambda>r. by_col r = k) (sort_values_desc stable_argsort by_col xs)
     = filter (\<lambda>r. by_col r = k) xs"
  by (simp add: sort_values_desc_stable rev_filter [symmetric] sort_key_stable)

lemma sort_values_desc_three:
  assumes "length xs \<le> 3"
  shows "sort_values_desc simd_argsort by_col xs = sort_values_desc stable_argsort by_col xs"
  using assms by (simp add: sort_values_desc_def simd_argsort_three_stable)

text \<open>
  Up to three keys the vectorised routine returns what the insertion sort returns, so
  a table of at most three rows keeps its ties in the order of the input.
\<close>

lemma three_rows_keep_ties:
  assumes "length xs \<le> 3"
  shows "filter (\<lambda>r. by_col r = k) (sort_values_desc simd_argsort by_col xs)
           = filter (\<lambda>r. by_col r = k) xs"
  using assms by (simp only: sort_values_desc_three stable_sort_keeps_ties)

subsection \<open>Confidence intervals\<close>

lemma ci_analysis_returns:
  assumes "metric_column df metric = Inr col" and "0 \<le> cl" and "cl \<le> 1"
  shows "fst (confidence_interval_analysis t_ppf df metric cl)
           = Inr (map (\<lambda>t. ci_of t_ppf cl t (map col (treatment_data df t)))
                    (unique (map r_treatment (rows df))))"
  using assms by (simp add: confidence_interval_analysis_def Let_def)

lemma ci_of_fields:
  "Treatment (ci_of t_ppf cl t data) = t"
  "Mean (ci_of t_ppf cl t data) = np_mean data"
  by (simp_all add: ci_of_def Let_def)

lemma ci_of_small:
  assumes "length data < 2"
  shows "Lower_CI (ci_of t_ppf cl t data) = None"
    and "Upper_CI (ci_of t_ppf cl t data) = None"
    and "Margin_of_Error (ci_of t_ppf cl t data) = None"
  using assms
  by (simp_all add: ci_of_def Let_def t_interval_def t_quantile_def pd_sem_def pd_std_def)

lemma ci_of_large:
  assumes "2 \<le> length data" and "pd_sem data = Some se" and "0 < se"
    and "0 < cl" and "cl < 1"
  shows "Lower_CI (ci_of t_ppf cl t data)
           = Some (np_mean data + se * t_ppf ((1 - cl) / 2) (int (length data) - 1))"
    and "Upper_CI (ci_of t_ppf cl t data)
           = Some (np_mean data + se * t_ppf ((1 + cl) / 2) (int (length data) - 1))"
    and "Margin_of_Error (ci_of t_ppf cl t data)
           = Some ((np_mean data + se * t_ppf ((1 + cl) / 2) (int (length data) - 1)
                    - (np_mean data + se * t_ppf ((1 - cl) / 2) (int (length data) - 1))) / 2)"
  using assms
  by (simp_all add: ci_of_def Let_def t_interval_def t_quantile_def)

text \<open>
  Claim C3, as the code has it. \<^verbatim>\<open>confidence_interval_analysis\<close> has no check on the
  size of a treatment group. For a numeric metric and a confidence level in \<open>[0, 1]\<close>
  it returns one row per treatment of the table, with the sample mean of the group. For
  a group of fewer than 2 rows both bounds and the margin of error are \<^verbatim>\<open>NaN\<close>. For
  a group of \<open>count \<ge> 2\<close> rows with a positive standard error \<open>se\<close> and a level strictly
  between 0 and 1 the bounds are the mean plus \<open>se\<close> times the Student's-t quantiles at
  \<open>(1 - level) / 2\<close> and \<open>(1 + level) / 2\<close> with \<open>count - 1\<close> degrees of freedom, and the
  margin of error is half the distance between the bounds.
\<close>

theorem confidence_interval_no_size_check:
  assumes "metric_column df metric = Inr col" and "0 \<le> cl" and "cl \<le> 1"
  shows "\<exists>out. fst (confidence_interval_analysis t_ppf df metric cl) = Inr out
     \<and> map Treatment out = unique (map r_treatment (rows df))
     \<and> (\<forall>row \<in> set out.
           Mean row = np_mean (map col (treatment_data df (Treatment row)))
         \<and> (length (treatment_data df (Treatment row)) < 2 \<longrightarrow>
               Lower_CI row = None \<and> Upper_CI row = None \<and> Margin_of_Error row = None)
         \<and> (\<forall>se. 2 \<le> length (treatment_data df (Treatment row))
                  \<and> pd_sem (map col (treatment_data df (Treatment row))) = Some se
                  \<and> 0 < se \<and> 0 < cl \<and> cl < 1 \<longrightarrow>
               Lower_CI row
                 = Some (Mean row + se * t_ppf ((1 - cl) / 2)
                                            (int (length (treatment_data df (Treatment row))) - 1))
             \<and> Upper_CI row
                 = Some (Mean row + se * t_ppf ((1 + cl) / 2)
                                            (int (length (treatment_data df (Treatment row))) - 1))
             \<and> Margin_of_Error row
                 = Some (se * (t_ppf ((1 + cl) / 2)
                                  (int (length (treatment_data df (Treatment row))) - 1)
                               - t_ppf ((1 - cl) / 2)
                                   (int (length (treatment_data df (Treatment row))) - 1)) / 2)))"
proof -
  define out where "out = map (\<lambda>t. ci_of t_ppf cl t (map col (treatment_data df t)))
                            (unique (map r_treatment (rows df)))"
  have ret: "fst (confidence_interval_analysis t_ppf df metric cl) = Inr out"
    unfolding out_def by (rule ci_analysis_returns [OF assms])
  have tr: "map Treatment out = unique (map r_treatment (rows df))"
    by (simp add: out_def comp_def ci_of_fields)
  have rows: "Mean row = np_mean (map col (treatment_data df (Treatment row)))
         \<and> (length (treatment_data df (Treatment row)) < 2 \<longrightarrow>
               Lower_CI row = None \<and> Upper_CI row = None \<and> Margin_of_Error row = None)
         \<and> (\<forall>se. 2 \<le> length (treatment_data df (Treatment row))
                  \<and> pd_sem (map col (treatment_data df (Treatment row))) = Some se
                  \<and> 0 < se \<and> 0 < cl \<and> cl < 1 \<longrightarrow>
               Lower_CI row
                 = Some (Mean row + se * t_ppf ((1 - cl) / 2)
                                            (int (length (treatment_data df (Treatment row))) - 1))
             \<and> Upper_CI row
                 = Some (Mean row + se * t_ppf ((1 + cl) / 2)
                                            (int (length (treatment_data df (Treatment row))) - 1))
             \<and> Margin_of_Error row
                 = Some (se * (t_ppf ((1 + cl) / 2)
                                  (int (length (treatment_data df (Treatment row))) - 1)
                               - t_ppf ((1 - cl) / 2)
                                   (int (length (treatment_data df (Treatment row))) - 1)) / 2))"
    if "row \<in> set out" for row
  proof -
    from that obtain t where row: "row = ci_of t_ppf cl t (map col (treatment_data df t))"
      by (auto simp add: out_def)
    define data where "data = map col (treatment_data df t)"
    have t: "Treatment row = t" by (simp add: row ci_of_fields)
    have len: "length (treatment_data df t) = length data" by (simp add: data_def)
    have m: "Mean row = np_mean data" by (simp add: row ci_of_fields data_def)
    have small: "length data < 2 \<longrightarrow>
               Lower_CI row = None \<and> Upper_CI row = None \<and> Margin_of_Error row = None"
      using ci_of_small [of data t_ppf cl t] by (simp add: row data_def)
    have large: "Lower_CI row = Some (Mean row + se * t_ppf ((1 - cl) / 2) (int (length data) - 1))
             \<and> Upper_CI row = Some (Mean row + se * t_ppf ((1 + cl) / 2) (int (length data) - 1))
             \<and> Margin_of_Error row
                 = Some (se * (t_ppf ((1 + cl) / 2) (int (length data) - 1)
                               - t_ppf ((1 - cl) / 2) (int (length data) - 1)) / 2)"
      if "2 \<le> length data" "pd_sem data = Some se" "0 < se" "0 < cl" "cl < 1" for se
      using ci_of_large [OF that, of t_ppf t]
      by (simp add: row data_def [symmetric] ci_of_fields algebra_simps)
    show ?thesis
      unfolding t len data_def [symmetric] using m small large by blast
  qed
  from ret tr rows show ?thesis by blast
qed

lemma ex_spread_sem: "pd_sem [2 / 5, 3 / 5] = Some (1 / 10)"
proof -
  have "sqrt (1 / 50) / sqrt 2 = sqrt (1 / 100)"
    by (simp add: real_sqrt_divide [symmetric])
  also have "\<dots> = 1 / 10"
    by (rule real_sqrt_unique) (simp_all add: power2_eq_square)
  finally have "sqrt (1 / 50) / sqrt 2 = 1 / 10" .
  moreover have "((2 / 5 - 1 / 2)\<^sup>2 + (3 / 5 - 1 / 2)\<^sup>2 :: real) = 1 / 50"
    by (simp add: power2_eq_square)
  ultimately show ?thesis
    by (simp add: pd_sem_def pd_std_def np_mean_def)
qed

lemma ex_spread_data:
  "unique (map r_treatment (rows ex_spread_df)) = [''Standard Care'']"
  "map probability_of_success (treatment_data ex_spread_df ''Standard Care'') = [2 / 5, 3 / 5]"
  "metric_column ex_spread_df ''probability_of_success'' = Inr probability_of_success"
  by (simp_all add: ex_spread_df_def ex_outcome_def unique_def treatment_data_def
      metric_column_def)

lemma ex_spread_ci:
  "fst (confidence_interval_analysis (\<lambda>q dof. 2 * q - 1) ex_spread_df
          ''probability_of_success'' (19 / 20))
     = Inr [\<lparr>Treatment = ''Standard Care'', Mean = 1 / 2, Lower_CI = Some (81 / 200),
             Upper_CI = Some (119 / 200), Margin_of_Error = Some (19 / 200)\<rparr>]"
proof -
  have m: "np_mean [2 / 5, 3 / 5] = 1 / 2" by (simp add: np_mean_def)
  have "ci_of (\<lambda>q dof. 2 * q - 1) (19 / 20) ''Standard Care'' [2 / 5, 3 / 5]
          = \<lparr>Treatment = ''Standard Care'', Mean = 1 / 2, Lower_CI = Some (81 / 200),
             Upper_CI = Some (119 / 200), Margin_of_Error = Some (19 / 200)\<rparr>"
    by (simp add: ci_of_def Let_def t_interval_def t_quantile_def ex_spread_sem m)
  then show ?thesis
    by (simp add: ci_analysis_returns [OF ex_spread_data(3)] ex_spread_data)
qed

theorem confidence_interval_no_size_check_witness:
  "metric_column ex_spread_df ''probability_of_success'' = Inr probability_of_success
   \<and> (\<exists>out. fst (confidence_interval_analysis (\<lambda>q dof. 2 * q - 1) ex_spread_df
                     ''probability_of_success'' (19 / 20)) = Inr out
          \<and> map Treatment out = unique (map r_treatment (rows ex_spread_df))
          \<and> out = [\<lparr>Treatment = ''Standard Care'', Mean = 1 / 2, Lower_CI = Some (81 / 200),
                     Upper_CI = Some (119 / 200), Margin_of_Error = Some (19 / 200)\<rparr>])"
proof -
  from confidence_interval_no_size_check
         [of ex_spread_df "''probability_of_success''" probability_of_success "19 / 20"
             "\<lambda>q dof. 2 * q - 1", OF ex_spread_data(3)]
  obtain out where "fst (confidence_interval_analysis (\<lambda>q dof. 2 * q - 1) ex_spread_df
                     ''probability_of_success'' (19 / 20)) = Inr out"
    and "map Treatment out = unique (map r_treatment (rows ex_spread_df))"
    by auto
  with ex_spread_ci ex_spread_data(3) show ?thesis by simp
qed

text \<open>
  A table with a single row: the call returns a row for the treatment, with the mean
  and without bounds, and raises nothing.
\<close>

theorem single_row_group_counterexample:
  "fst (confidence_interval_analysis (\<lambda>q dof. 2 * q - 1) ex_boundary_df
          ''probability_of_success'' (19 / 20))
     = Inr [\<lparr>Treatment = ''Standard Care'', Mean = 1 / 2, Lower_CI = None, Upper_CI = None,
             Margin_of_Error = None\<rparr>]"
  by (simp add: confidence_interval_analysis_def Let_def ex_boundary_df_def ex_outcome_def
      unique_def metric_column_def treatment_data_def ci_of_def t_interval_def t_quantile_def
      pd_sem_def pd_std_def np_mean_def)

subsection \<open>The input table after a call\<close>

text \<open>
  Claim C8, as the code has it. \<^verbatim>\<open>generate_summary_statistics\<close>,
  \<^verbatim>\<open>compare_treatments_analysis\<close> and \<^verbatim>\<open>confidence_interval_analysis\<close> leave the table
  they are given unchanged. \<^verbatim>\<open>risk_stratification_analysis\<close> leaves the rows unchanged
  and sets the column \<^verbatim>\<open>risk_category\<close> of the table to the band of each row.
\<close>

theorem analyzer_frame:
  "snd (generate_summary_statistics df) = df
   \<and> snd (compare_treatments_analysis argsort df) = df
   \<and> snd (confidence_interval_analysis t_ppf df metric confidence_level) = df
   \<and> rows (snd (risk_stratification_analysis df)) = rows df
   \<and> risk_category (snd (risk_stratification_analysis df))
        = Some (map (\<lambda>r. pd_cut risk_bins risk_labels (r_baseline_severity r)) (rows df))"
  by (simp add: generate_summary_statistics_def compare_treatments_analysis_def
      confidence_interval_analysis_def risk_stratification_analysis_def Let_def
      split: sum.splits)

text \<open>
  A table without the column \<^verbatim>\<open>risk_category\<close> has it after the call.
\<close>

theorem stratify_adds_column_counterexample:
  "risk_category ex_boundary_df = None
   \<and> risk_category (snd (risk_stratification_analysis ex_boundary_df)) \<noteq> None
   \<and> snd (risk_stratification_analysis ex_boundary_df) \<noteq> ex_boundary_df"
  by (simp add: risk_stratification_analysis_def Let_def ex_boundary_df_def)

end
